theory Spec2Isabelle
  imports Main
begin

section \<open>Python values and built-ins used by \<open>elsprofile.py\<close>\<close>

text \<open>
  The values the module handles are parsed JSON documents (what the client's
  \<open>exec_request\<close> returns) and Python's \<open>None\<close>.  Python's \<open>None\<close> and JSON's
  \<open>null\<close> are the same object, so \<open>JNull\<close> stands for both: an unset \<open>_doc_list\<close> or
  \<open>_data\<close> is \<open>JNull\<close>.  A dictionary is an association list in insertion order; Python
  dictionaries have distinct keys.  Strings are lists of 8-bit characters (code points
  below 256).  Floating-point numbers are left out of the embedding.
\<close>

datatype json =
    JNull
  | JBool bool
  | JInt int
  | JStr string
  | JArr "json list"
  | JObj "(string \<times> json) list"

text \<open>The exceptions that can arise in the module; a \<open>ValueError\<close> carries its message
  (the one of \<open>int\<close> without the quoted literal).  The two \<open>requests\<close> classes are the
  ones the \<open>except\<close> clauses catch.\<close>

datatype exc =
    ValueError string
  | AttributeError
  | TypeError
  | KeyError
  | IndexError
  | FileNotFoundError
  | HTTPError
  | RequestException
  | OtherError

text \<open>\<open>except (requests.HTTPError, requests.RequestException)\<close>\<close>

fun transport :: "exc \<Rightarrow> bool" where
  "transport HTTPError = True"
| "transport RequestException = True"
| "transport _ = False"

text \<open>Truth value testing (\<open>if x:\<close>, \<open>not x\<close>).\<close>

fun truthy :: "json \<Rightarrow> bool" where
  "truthy JNull = False"
| "truthy (JBool b) = b"
| "truthy (JInt n) = (n \<noteq> 0)"
| "truthy (JStr s) = (s \<noteq> [])"
| "truthy (JArr xs) = (xs \<noteq> [])"
| "truthy (JObj kvs) = (kvs \<noteq> [])"

text \<open>\<open>len(x)\<close>\<close>

fun py_len :: "json \<Rightarrow> exc + nat" where
  "py_len (JStr s) = Inr (length s)"
| "py_len (JArr xs) = Inr (length xs)"
| "py_len (JObj kvs) = Inr (length kvs)"
| "py_len _ = Inl TypeError"

text \<open>\<open>x.get(k, d)\<close>: only dictionaries have the method.\<close>

fun py_get :: "json \<Rightarrow> string \<Rightarrow> json \<Rightarrow> exc + json" where
  "py_get (JObj kvs) k d = Inr (case map_of kvs k of None \<Rightarrow> d | Some v \<Rightarrow> v)"
| "py_get _ k d = Inl AttributeError"

text \<open>\<open>x[k]\<close> with a string key.\<close>

fun getitem :: "json \<Rightarrow> string \<Rightarrow> exc + json" where
  "getitem (JObj kvs) k = (case map_of kvs k of None \<Rightarrow> Inl KeyError | Some v \<Rightarrow> Inr v)"
| "getitem _ k = Inl TypeError"

text \<open>\<open>x[i]\<close> with a non-negative integer index.  A dictionary parsed from JSON has
  string keys only, so an integer key is never found.\<close>

fun getindex :: "json \<Rightarrow> nat \<Rightarrow> exc + json" where
  "getindex (JArr xs) i = (if i < length xs then Inr (xs ! i) else Inl IndexError)"
| "getindex (JStr s) i = (if i < length s then Inr (JStr [s ! i]) else Inl IndexError)"
| "getindex (JObj kvs) i = Inl KeyError"
| "getindex _ i = Inl TypeError"

text \<open>\<open>x[k] = v\<close> with a string key: an existing key keeps its position, a new key is
  appended.  A list takes integer indices only; the other values support no item
  assignment.\<close>

fun upd :: "string \<Rightarrow> json \<Rightarrow> (string \<times> json) list \<Rightarrow> (string \<times> json) list" where
  "upd k v [] = [(k, v)]"
| "upd k v (p # ps) = (if fst p = k then (k, v) # ps else p # upd k v ps)"

fun setitem :: "json \<Rightarrow> string \<Rightarrow> json \<Rightarrow> exc + json" where
  "setitem (JObj kvs) k v = Inr (JObj (upd k v kvs))"
| "setitem _ k v = Inl TypeError"

subsection \<open>\<open>str(n)\<close> and \<open>int(x)\<close>\<close>

definition digit_char :: "nat \<Rightarrow> char" where
  "digit_char d = char_of (48 + d)"

fun digits_of_nat :: "nat \<Rightarrow> string" where
  "digits_of_nat n =
     (if n < 10 then [digit_char n] else digits_of_nat (n div 10) @ [digit_char (n mod 10)])"

declare digits_of_nat.simps [simp del]

text \<open>\<open>str(n)\<close> for an integer.\<close>

definition str_int :: "int \<Rightarrow> string" where
  "str_int i = (if i < 0 then CHR ''-'' # digits_of_nat (nat (- i)) else digits_of_nat (nat i))"

definition digit_val :: "char \<Rightarrow> nat option" where
  "digit_val c = (let n = (of_char c :: nat) in
     if 48 \<le> n \<and> n \<le> 57 then Some (n - 48) else None)"

text \<open>The characters \<open>int\<close> strips from both ends of its argument, among the code
  points below 256: tab, line feed, vertical tab, form feed, carriage return, space,
  next line and no-break space.  The separators 28 to 31, which \<open>str.isspace\<close> accepts,
  are not among them: \<open>int\<close> raises \<open>ValueError\<close> on a text that has one.\<close>

definition is_space :: "char \<Rightarrow> bool" where
  "is_space c = (let n = (of_char c :: nat) in
     (9 \<le> n \<and> n \<le> 13) \<or> n = 32 \<or> n = 133 \<or> n = 160)"

definition strip :: "string \<Rightarrow> string" where
  "strip s = rev (dropWhile is_space (rev (dropWhile is_space s)))"

text \<open>The digits of an integer literal, most significant first; single underscores may
  separate digits.  \<open>prev\<close> says that the previous character was a digit.\<close>

fun int_digits :: "bool \<Rightarrow> nat \<Rightarrow> string \<Rightarrow> nat option" where
  "int_digits prev acc [] = (if prev then Some acc else None)"
| "int_digits prev acc (c # cs) =
     (if c = CHR ''_'' then (if prev then int_digits False acc cs else None)
      else case digit_val c of
             None \<Rightarrow> None
           | Some d \<Rightarrow> int_digits True (10 * acc + d) cs)"

text \<open>\<open>int(s)\<close> for a string: surrounding whitespace, an optional sign, decimal digits.\<close>

definition int_of_str :: "string \<Rightarrow> exc + int" where
  "int_of_str s =
     (let t = strip s;
          (neg, ds) = (case t of
                         c # cs \<Rightarrow> if c = CHR ''-'' then (True, cs)
                                   else if c = CHR ''+'' then (False, cs) else (False, t)
                       | [] \<Rightarrow> (False, t))
      in case int_digits False 0 ds of
           None \<Rightarrow> Inl (ValueError ''invalid literal for int() with base 10'')
         | Some n \<Rightarrow> Inr (if neg then - int n else int n))"

text \<open>\<open>int(x)\<close>\<close>

fun py_int :: "json \<Rightarrow> exc + int" where
  "py_int (JInt n) = Inr n"
| "py_int (JBool b) = Inr (if b then 1 else 0)"
| "py_int (JStr s) = int_of_str s"
| "py_int _ = Inl TypeError"

subsection \<open>\<open>s.split(sep)\<close> with a one-character separator\<close>

fun split_on :: "char \<Rightarrow> string \<Rightarrow> string list" where
  "split_on sep [] = [[]]"
| "split_on sep (c # cs) =
     (case split_on sep cs of
        [] \<Rightarrow> [[]]
      | w # ws \<Rightarrow> if c = sep then [] # w # ws else (c # w) # ws)"

text \<open>\<open>s.split('/')[-1]\<close>; the list \<open>split\<close> returns is never empty.\<close>

definition last_segment :: "string \<Rightarrow> string" where
  "last_segment s = last (split_on CHR ''/'' s)"

section \<open>Entities, clients and the outside world\<close>

text \<open>
  A client is an object of the collaborating client class, known here by a handle; as an
  object without \<open>__bool__\<close> or \<open>__len__\<close> it is always true in a condition.  An absent
  client (\<open>None\<close>) is \<open>None\<close>.

  What the network answers is not the module's business: \<open>respond env c n url\<close> is what
  the call \<open>c.exec_request(url)\<close> gives when \<open>n\<close> requests have been issued before it,
  either a parsed JSON document or a raised exception.  The world records every request
  issued, the directories that exist and the content of every file.
\<close>

datatype client = Client nat

record world =
  requests :: "(client \<times> string) list"
  dirs :: "string set"
  files :: "string \<rightharpoonup> string"

text \<open>Modelled from the spec: \<open>recast_df\<close> (module \<open>utils\<close>) and the data frame built from
  the document list are not among the sources; the spec calls the result a derived
  tabular projection of the list, rebuilt on each fetch.  It is the function \<open>frame_of\<close>
  of the environment.  The construction can raise: \<open>pandas\<close> rejects some values (a
  text, a dictionary of scalars, a list that holds a dictionary and a number), so the
  function gives a frame or an exception.\<close>

record 'f env =
  respond :: "client \<Rightarrow> nat \<Rightarrow> string \<Rightarrow> exc + json"
  frame_of :: "json \<Rightarrow> exc + 'f"

definition exec_request :: "'f env \<Rightarrow> client \<Rightarrow> string \<Rightarrow> world \<Rightarrow> (exc + json) \<times> world" where
  "exec_request env c url w =
     (respond env c (length (requests w)) url, w\<lparr>requests := requests w @ [(c, url)]\<rparr>)"

text \<open>The attributes of a profile object: \<open>_uri\<close>, \<open>_data\<close> and \<open>_client\<close> of the entity
  base, \<open>_doc_list\<close> and \<open>docsframe\<close> of the profile (\<open>docsframe\<close> does not exist before the
  first fetch).\<close>

record 'f profile =
  uri :: string
  data :: json
  client :: "client option"
  doc_list :: json
  docsframe :: "'f option"

text \<open>\<open>ElsProfile.__init__\<close>.  Modelled from the spec: \<open>ElsEntity.__init__\<close> is not among the
  sources; it stores the URI and leaves data and client unset.\<close>

definition ElsProfile_init :: "string \<Rightarrow> 'f profile" where
  "ElsProfile_init u =
     \<lparr>uri = u, data = JNull, client = None, doc_list = JNull, docsframe = None\<rparr>"

subsection \<open>Construction\<close>

text \<open>An identifier argument is a string or a number; the default of both constructor
  arguments is the empty string.\<close>

datatype pyid = IdStr string | IdInt int

fun id_truthy :: "pyid \<Rightarrow> bool" where
  "id_truthy (IdStr s) = (s \<noteq> [])"
| "id_truthy (IdInt n) = (n \<noteq> 0)"

fun str_id :: "pyid \<Rightarrow> string" where
  "str_id (IdStr s) = s"
| "str_id (IdInt n) = str_int n"

definition Author_payload_type :: string where
  "Author_payload_type = ''author-retrieval-response''"

definition Author_uri_base :: string where
  "Author_uri_base = ''https://api.elsevier.com/content/author/author_id/''"

definition Affil_payload_type :: string where
  "Affil_payload_type = ''affiliation-retrieval-response''"

definition Affil_uri_base :: string where
  "Affil_uri_base = ''https://api.elsevier.com/content/affiliation/affiliation_id/''"

definition ElsAuthor_init :: "string \<Rightarrow> pyid \<Rightarrow> exc + 'f profile" where
  "ElsAuthor_init u author_id =
     (if u \<noteq> [] \<and> \<not> id_truthy author_id then Inr (ElsProfile_init u)
      else if id_truthy author_id \<and> \<not> u \<noteq> [] then
        Inr (ElsProfile_init (Author_uri_base @ str_id author_id))
      else if \<not> u \<noteq> [] \<and> \<not> id_truthy author_id then
        Inl (ValueError ''No URI or author ID specified'')
      else Inl (ValueError ''Both URI and author ID specified; just need one.''))"

definition ElsAffil_init :: "string \<Rightarrow> pyid \<Rightarrow> exc + 'f profile" where
  "ElsAffil_init u affil_id =
     (if u \<noteq> [] \<and> \<not> id_truthy affil_id then Inr (ElsProfile_init u)
      else if id_truthy affil_id \<and> \<not> u \<noteq> [] then
        Inr (ElsProfile_init (Affil_uri_base @ str_id affil_id))
      else if \<not> u \<noteq> [] \<and> \<not> id_truthy affil_id then
        Inl (ValueError ''No URI or affiliation ID specified'')
      else Inl (ValueError ''Both URI and affiliation ID specified; just need one.''))"

section \<open>Fetching the document list\<close>

definition binding_error :: exc where
  "binding_error = ValueError ''Entity object not currently bound to els_client instance.''"

text \<open>Lines 36 to 41: bind the client given, or insist on one bound before.\<close>

definition bind_client :: "client option \<Rightarrow> 'f profile \<Rightarrow> exc + 'f profile" where
  "bind_client els_client p =
     (case els_client of
        Some c \<Rightarrow> Inr (p\<lparr>client := Some c\<rparr>)
      | None \<Rightarrow> (case client p of None \<Rightarrow> Inl binding_error | Some c \<Rightarrow> Inr p))"

text \<open>The client a call has at hand: the one given, else the one bound before.\<close>

definition available :: "client option \<Rightarrow> 'f profile \<Rightarrow> client option" where
  "available els_client p = (case els_client of Some c \<Rightarrow> Some c | None \<Rightarrow> client p)"

definition search_url :: "string \<Rightarrow> string" where
  "search_url u =
     ''http://api.elsevier.com/content/search/scopus?query=au-id('' @ last_segment u
       @ '')&view=COMPLETE''"

text \<open>The \<open>except\<close> clause of the three fetching operations: a transport error becomes
  the result \<open>False\<close>, any other exception goes on to the caller.\<close>

definition handler :: "exc \<Rightarrow> exc + bool" where
  "handler e = (if transport e then Inr False else Inl e)"

text \<open>\<open>ElsProfile.read_docs\<close>.  The result is what the call returns or raises, with the
  object and the world as the call leaves them.  The \<open>print\<close> and logging calls are left
  out, but \<open>len\<close> in their arguments can raise and is kept.  The list is assigned
  before the frame is built, so an exception of the frame construction leaves the new
  list on the object; the \<open>except\<close> clause sees that exception as any other.\<close>

definition read_docs ::
  "'f env \<Rightarrow> string \<Rightarrow> client option \<Rightarrow> 'f profile \<times> world \<Rightarrow> (exc + bool) \<times> 'f profile \<times> world" where
  "read_docs env payloadType els_client pw =
     (case pw of (p, w) \<Rightarrow>
      case bind_client els_client p of
        Inl e \<Rightarrow> (Inl e, p, w)
      | Inr p1 \<Rightarrow>
         (case client p1 of
            None \<Rightarrow> (Inl AttributeError, p1, w)
          | Some c \<Rightarrow>
             (case exec_request env c (search_url (uri p1)) w of
                (Inl e, w1) \<Rightarrow> (handler e, p1, w1)
              | (Inr api_response, w1) \<Rightarrow>
                 (case py_get api_response ''search-results'' (JObj []) of
                    Inl e \<Rightarrow> (handler e, p1, w1)
                  | Inr sr \<Rightarrow>
                     (case py_get sr ''entry'' (JArr []) of
                        Inl e \<Rightarrow> (handler e, p1, w1)
                      | Inr dl \<Rightarrow>
                         (let p2 = p1\<lparr>doc_list := dl\<rparr> in
                          case py_len dl of
                            Inl e \<Rightarrow> (handler e, p2, w1)
                          | Inr n \<Rightarrow>
                             (case frame_of env dl of
                                Inl e \<Rightarrow> (handler e, p2, w1)
                              | Inr f \<Rightarrow> (Inr True, p2\<lparr>docsframe := Some f\<rparr>, w1))))))))"

definition ElsAuthor_read_docs ::
  "'f env \<Rightarrow> client option \<Rightarrow> 'f profile \<times> world \<Rightarrow> (exc + bool) \<times> 'f profile \<times> world" where
  "ElsAuthor_read_docs env els_client pw = read_docs env Author_payload_type els_client pw"

definition ElsAffil_read_docs ::
  "'f env \<Rightarrow> client option \<Rightarrow> 'f profile \<times> world \<Rightarrow> (exc + bool) \<times> 'f profile \<times> world" where
  "ElsAffil_read_docs env els_client pw = read_docs env Affil_payload_type els_client pw"

section \<open>Author metrics\<close>

text \<open>Sequencing of two steps that can raise.\<close>

definition ebind :: "exc + 'a \<Rightarrow> ('a \<Rightarrow> exc + 'b) \<Rightarrow> exc + 'b" where
  "ebind r f = (case r of Inl e \<Rightarrow> Inl e | Inr x \<Rightarrow> f x)"

text \<open>A block of statements on a state: a statement that raises leaves the state as the
  statements before it made it, and ends the block.\<close>

fun run_stmts :: "('s \<Rightarrow> exc + 's) list \<Rightarrow> 's \<Rightarrow> exc option \<times> 's" where
  "run_stmts [] s = (None, s)"
| "run_stmts (f # fs) s = (case f s of Inl e \<Rightarrow> (Some e, s) | Inr s' \<Rightarrow> run_stmts fs s')"

text \<open>\<open>self._data['coredata'][k] = v\<close>, on the value of \<open>self._data\<close>: the dictionary under
  \<open>coredata\<close> is changed in place, so it stays where it is in \<open>self._data\<close>.\<close>

definition set_coredata :: "string \<Rightarrow> json \<Rightarrow> json \<Rightarrow> exc + json" where
  "set_coredata k v d =
     ebind (getitem d ''coredata'') (\<lambda>cd.
     ebind (setitem cd k v) (\<lambda>cd'. setitem d ''coredata'' cd'))"

text \<open>\<open>data['coredata'][k]\<close> of the response payload.\<close>

definition coredata_field :: "json \<Rightarrow> string \<Rightarrow> exc + json" where
  "coredata_field d k = ebind (getitem d ''coredata'') (\<lambda>cd. getitem cd k)"

text \<open>Lines 156 to 160, as statements on \<open>self._data\<close>; \<open>d\<close> is the local \<open>data\<close>.  The
  right-hand side of an assignment is evaluated before its target.\<close>

definition metrics_stmts :: "json \<Rightarrow> (json \<Rightarrow> exc + json) list" where
  "metrics_stmts d =
     [\<lambda>sd. ebind (coredata_field d ''dc:identifier'') (\<lambda>v. set_coredata ''dc:identifier'' v sd),
      \<lambda>sd. ebind (ebind (coredata_field d ''citation-count'') py_int)
             (\<lambda>n. set_coredata ''citation-count'' (JInt n) sd),
      \<lambda>sd. ebind (ebind (coredata_field d ''citation-count'') py_int)
             (\<lambda>n. set_coredata ''cited-by-count'' (JInt n) sd),
      \<lambda>sd. ebind (ebind (coredata_field d ''document-count'') py_int)
             (\<lambda>n. set_coredata ''document-count'' (JInt n) sd),
      \<lambda>sd. ebind (ebind (getitem d ''h-index'') py_int)
             (\<lambda>n. setitem sd ''h-index'' (JInt n))]"

text \<open>\<open>api_response[self._payload_type][0]\<close>\<close>

definition metrics_payload :: "json \<Rightarrow> exc + json" where
  "metrics_payload api_response =
     ebind (getitem api_response Author_payload_type) (\<lambda>x. getindex x 0)"

text \<open>\<open>",".join(fields)\<close> for the list of line 142.\<close>

definition metrics_fields :: string where
  "metrics_fields = ''document-count,cited-by-count,citation-count,h-index,dc:identifier''"

text \<open>Lines 152 to 154: data that is unset or empty gives way to a new dictionary with
  an empty dictionary under \<open>coredata\<close>.\<close>

definition ensure_containers :: "json \<Rightarrow> json" where
  "ensure_containers sd = (if \<not> truthy sd then JObj [(''coredata'', JObj [])] else sd)"

text \<open>\<open>ElsAuthor.read_metrics\<close>.  It calls \<open>exec_request\<close> on its argument, never on the
  client bound to the object; on \<open>None\<close> the attribute lookup raises.\<close>

definition ElsAuthor_read_metrics ::
  "'f env \<Rightarrow> client option \<Rightarrow> 'f profile \<times> world \<Rightarrow> (exc + bool) \<times> 'f profile \<times> world" where
  "ElsAuthor_read_metrics env els_client pw =
     (case pw of (p, w) \<Rightarrow>
      case els_client of
        None \<Rightarrow> (handler AttributeError, p, w)
      | Some c \<Rightarrow>
         (case exec_request env c (uri p @ ''?field='' @ metrics_fields) w of
            (Inl e, w1) \<Rightarrow> (handler e, p, w1)
          | (Inr api_response, w1) \<Rightarrow>
             (case metrics_payload api_response of
                Inl e \<Rightarrow> (handler e, p, w1)
              | Inr d \<Rightarrow>
                 (let sd = ensure_containers (data p)
                  in case run_stmts (metrics_stmts d) sd of
                       (Some e, sd') \<Rightarrow> (handler e, p\<lparr>data := sd'\<rparr>, w1)
                     | (None, sd') \<Rightarrow> (Inr True, p\<lparr>data := sd'\<rparr>, w1)))))"

section \<open>The generic read\<close>

text \<open>Modelled from the spec: \<open>ElsEntity.read\<close> is not among the sources.  The spec has it
  require a client as \<open>read_docs\<close> does, perform one GET against the URI, store the parsed
  payload as \<open>data\<close>, replacing it wholesale, and turn a transport error into the result
  \<open>False\<close>.  The payload is what the response holds under the payload-type tag.\<close>

definition read ::
  "'f env \<Rightarrow> string \<Rightarrow> client option \<Rightarrow> 'f profile \<times> world \<Rightarrow> (exc + bool) \<times> 'f profile \<times> world" where
  "read env payloadType els_client pw =
     (case pw of (p, w) \<Rightarrow>
      case bind_client els_client p of
        Inl e \<Rightarrow> (Inl e, p, w)
      | Inr p1 \<Rightarrow>
         (case client p1 of
            None \<Rightarrow> (Inl AttributeError, p1, w)
          | Some c \<Rightarrow>
             (case exec_request env c (uri p1) w of
                (Inl e, w1) \<Rightarrow> (handler e, p1, w1)
              | (Inr api_response, w1) \<Rightarrow>
                 (case getitem api_response payloadType of
                    Inl e \<Rightarrow> (handler e, p1, w1)
                  | Inr payload \<Rightarrow> (Inr True, p1\<lparr>data := payload\<rparr>, w1)))))"

text \<open>\<open>ElsAuthor.read\<close> and \<open>ElsAffil.read\<close>: \<open>True\<close> if the generic read gives a true value,
  else \<open>False\<close>.\<close>

definition ElsAuthor_read ::
  "'f env \<Rightarrow> client option \<Rightarrow> 'f profile \<times> world \<Rightarrow> (exc + bool) \<times> 'f profile \<times> world" where
  "ElsAuthor_read env els_client pw =
     (case read env Author_payload_type els_client pw of
        (Inr b, pw') \<Rightarrow> (if b then (Inr True, pw') else (Inr False, pw'))
      | (Inl e, pw') \<Rightarrow> (Inl e, pw'))"

definition ElsAffil_read ::
  "'f env \<Rightarrow> client option \<Rightarrow> 'f profile \<times> world \<Rightarrow> (exc + bool) \<times> 'f profile \<times> world" where
  "ElsAffil_read env els_client pw =
     (case read env Affil_payload_type els_client pw of
        (Inr b, pw') \<Rightarrow> (if b then (Inr True, pw') else (Inr False, pw'))
      | (Inl e, pw') \<Rightarrow> (Inl e, pw'))"

section \<open>Writing the document list\<close>

subsection \<open>\<open>urllib.parse.quote_plus\<close>\<close>

definition hex_upper :: "nat \<Rightarrow> char" where
  "hex_upper d = ''0123456789ABCDEF'' ! d"

text \<open>The UTF-8 bytes of a code point below 256.\<close>

definition utf8 :: "char \<Rightarrow> nat list" where
  "utf8 c = (let n = (of_char c :: nat) in
     if n < 128 then [n] else [192 + n div 64, 128 + n mod 64])"

text \<open>The bytes never quoted: ASCII letters, digits and \<open>_.-~\<close>.\<close>

definition always_safe :: "nat \<Rightarrow> bool" where
  "always_safe b = ((65 \<le> b \<and> b \<le> 90) \<or> (97 \<le> b \<and> b \<le> 122) \<or> (48 \<le> b \<and> b \<le> 57)
     \<or> b = 95 \<or> b = 46 \<or> b = 45 \<or> b = 126)"

definition quote_byte :: "nat \<Rightarrow> string" where
  "quote_byte b =
     (if always_safe b then [char_of b]
      else if b = 32 then ''+''
      else [CHR ''%'', hex_upper (b div 16), hex_upper (b mod 16)])"

definition quote_plus :: "string \<Rightarrow> string" where
  "quote_plus s = concat (map quote_byte (concat (map utf8 s)))"

subsection \<open>\<open>json.dumps\<close> with its default arguments\<close>

definition hex_lower :: "nat \<Rightarrow> char" where
  "hex_lower d = ''0123456789abcdef'' ! d"

text \<open>One character of a string, as \<open>ensure_ascii\<close> writes it: the quotation mark, the
  backslash and everything outside the range from space to tilde are escaped.\<close>

definition escape_char :: "char \<Rightarrow> string" where
  "escape_char c =
     (if c = CHR 0x22 then [CHR 0x5C, CHR 0x22]
      else if c = CHR 0x5C then [CHR 0x5C, CHR 0x5C]
      else if c = CHR 0x0A then [CHR 0x5C, CHR ''n'']
      else if c = CHR 0x0D then [CHR 0x5C, CHR ''r'']
      else if c = CHR 0x09 then [CHR 0x5C, CHR ''t'']
      else if c = CHR 0x08 then [CHR 0x5C, CHR ''b'']
      else if c = CHR 0x0C then [CHR 0x5C, CHR ''f'']
      else (let n = (of_char c :: nat) in
        if 32 \<le> n \<and> n \<le> 126 then [c]
        else [CHR 0x5C, CHR ''u'', CHR ''0'', CHR ''0'', hex_lower (n div 16), hex_lower (n mod 16)]))"

definition dumps_str :: "string \<Rightarrow> string" where
  "dumps_str s = CHR 0x22 # concat (map escape_char s) @ [CHR 0x22]"

fun dumps :: "json \<Rightarrow> string"
  and dumps_elems :: "json list \<Rightarrow> string"
  and dumps_members :: "(string \<times> json) list \<Rightarrow> string" where
  "dumps JNull = ''null''"
| "dumps (JBool b) = (if b then ''true'' else ''false'')"
| "dumps (JInt n) = str_int n"
| "dumps (JStr s) = dumps_str s"
| "dumps (JArr xs) = ''['' @ dumps_elems xs @ '']''"
| "dumps (JObj kvs) = ''{'' @ dumps_members kvs @ ''}''"
| "dumps_elems [] = []"
| "dumps_elems (x # xs) = dumps x @ (if xs = [] then [] else '', '' @ dumps_elems xs)"
| "dumps_members [] = []"
| "dumps_members (kv # kvs) =
     dumps_str (fst kv) @ '': '' @ dumps (snd kv)
       @ (if kvs = [] then [] else '', '' @ dumps_members kvs)"

subsection \<open>Files\<close>

text \<open>The directory part of a relative path: what precedes the last slash.\<close>

definition dirname :: "string \<Rightarrow> string" where
  "dirname path = rev (drop 1 (dropWhile (\<lambda>c. c \<noteq> CHR ''/'') (rev path)))"

text \<open>\<open>open(path, mode='w')\<close>: the file is created or emptied; its directory must exist
  (the working directory, the empty directory part, always does).  The file system
  refuses nothing else: it has no limit on the length of a name or on space, and no
  permissions.\<close>

definition open_w :: "string \<Rightarrow> world \<Rightarrow> exc + world" where
  "open_w path w =
     (if dirname path = [] \<or> dirname path \<in> dirs w
      then Inr (w\<lparr>files := (files w)(path \<mapsto> [])\<rparr>)
      else Inl FileNotFoundError)"

text \<open>\<open>write\<close> on the open file.\<close>

definition fwrite :: "string \<Rightarrow> string \<Rightarrow> world \<Rightarrow> world" where
  "fwrite path s w =
     w\<lparr>files := (files w)(path \<mapsto> (case files w path of None \<Rightarrow> s | Some t \<Rightarrow> t @ s))\<rparr>"

definition docs_path :: "string \<Rightarrow> string" where
  "docs_path u = ''data/'' @ quote_plus (u @ ''?view=documents'') @ ''.json''"

text \<open>The loop of lines 77 and 78 over the indices it still has to visit.\<close>

fun write_items :: "json \<Rightarrow> string \<Rightarrow> nat list \<Rightarrow> world \<Rightarrow> exc option \<times> world" where
  "write_items dl path [] w = (None, w)"
| "write_items dl path (i # is) w =
     (case getindex dl i of
        Inl e \<Rightarrow> (Some e, w)
      | Inr x \<Rightarrow> write_items dl path is (fwrite path ('','' @ dumps x) w))"

text \<open>\<open>ElsProfile.write_docs\<close>.  Nothing catches an exception here.\<close>

definition write_docs :: "'f profile \<times> world \<Rightarrow> (exc + bool) \<times> 'f profile \<times> world" where
  "write_docs pw =
     (case pw of (p, w) \<Rightarrow>
      if truthy (doc_list p) then
        (case open_w (docs_path (uri p)) w of
           Inl e \<Rightarrow> (Inl e, p, w)
         | Inr w1 \<Rightarrow>
            (case getindex (doc_list p) 0 of
               Inl e \<Rightarrow> (Inl e, p, w1)
             | Inr x \<Rightarrow>
                (let w2 = fwrite (docs_path (uri p)) (''['' @ dumps x) w1 in
                 case py_len (doc_list p) of
                   Inl e \<Rightarrow> (Inl e, p, w2)
                 | Inr n \<Rightarrow>
                    (case write_items (doc_list p) (docs_path (uri p)) [1..<n] w2 of
                       (Some e, w3) \<Rightarrow> (Inl e, p, w3)
                     | (None, w3) \<Rightarrow> (Inr True, p, fwrite (docs_path (uri p)) '']'' w3)))))
      else (Inr False, p, w))"

section \<open>Sequences of operations\<close>

datatype pclass = ElsAuthor | ElsAffil

datatype op =
    Read "client option"
  | ReadDocs "client option"
  | ReadMetrics "client option"
  | WriteDocs

text \<open>One call on an object of the given class; an affiliation has no \<open>read_metrics\<close>.\<close>

fun call ::
  "'f env \<Rightarrow> pclass \<Rightarrow> op \<Rightarrow> 'f profile \<times> world \<Rightarrow> (exc + bool) \<times> 'f profile \<times> world" where
  "call env ElsAuthor (Read c) pw = ElsAuthor_read env c pw"
| "call env ElsAffil (Read c) pw = ElsAffil_read env c pw"
| "call env ElsAuthor (ReadDocs c) pw = ElsAuthor_read_docs env c pw"
| "call env ElsAffil (ReadDocs c) pw = ElsAffil_read_docs env c pw"
| "call env ElsAuthor (ReadMetrics c) pw = ElsAuthor_read_metrics env c pw"
| "call env ElsAffil (ReadMetrics c) pw = (Inl AttributeError, pw)"
| "call env cls WriteDocs pw = write_docs pw"

text \<open>A caller that goes on after every call, whatever it returned or raised; the
  result is the list of outcomes and the last state.\<close>

fun calls ::
  "'f env \<Rightarrow> pclass \<Rightarrow> op list \<Rightarrow> 'f profile \<times> world \<Rightarrow> (exc + bool) list \<times> 'f profile \<times> world" where
  "calls env cls [] pw = ([], pw)"
| "calls env cls (x # xs) pw =
     (case call env cls x pw of (r, pw') \<Rightarrow>
        (case calls env cls xs pw' of (rs, pw'') \<Rightarrow> (r # rs, pw'')))"

text \<open>The object and the world in which call number \<open>j\<close> of a sequence starts.\<close>

definition state_before ::
  "'f env \<Rightarrow> pclass \<Rightarrow> op list \<Rightarrow> nat \<Rightarrow> 'f profile \<times> world \<Rightarrow> 'f profile \<times> world" where
  "state_before env cls xs j pw = snd (calls env cls (take j xs) pw)"

section \<open>Reading JSON text\<close>

















text \<open>A value with a length, and that length positive: a non-empty list, string or
  dictionary.\<close>

definition nonempty :: "json \<Rightarrow> bool" where
  "nonempty x = (case py_len x of Inl e \<Rightarrow> False | Inr n \<Rightarrow> 0 < n)"

section \<open>Sample objects and worlds\<close>

text \<open>A world with the \<open>data\<close> directory and one without it, both without files and
  requests.\<close>

definition world0 :: world where
  "world0 = \<lparr>requests = [], dirs = {''data''}, files = Map.empty\<rparr>"


text \<open>An author made from the identifier 123.\<close>

definition author123 :: "unit profile" where
  "author123 = ElsProfile_init ''https://api.elsevier.com/content/author/author_id/123''"

text \<open>A network that answers every request with the same document.\<close>

definition const_env :: "json \<Rightarrow> unit env" where
  "const_env doc = \<lparr>respond = (\<lambda>c n url. Inr doc), frame_of = (\<lambda>x. Inr ())\<rparr>"

text \<open>A network on which every request fails with the given exception.\<close>

definition failing_env :: "exc \<Rightarrow> unit env" where
  "failing_env e = \<lparr>respond = (\<lambda>c n url. Inl e), frame_of = (\<lambda>x. Inr ())\<rparr>"

text \<open>A network that answers the first request with one document and every later one
  with another.\<close>

definition two_env :: "json \<Rightarrow> json \<Rightarrow> unit env" where
  "two_env doc1 doc2 =
     \<lparr>respond = (\<lambda>c n url. if n = 0 then Inr doc1 else Inr doc2), frame_of = (\<lambda>x. Inr ())\<rparr>"

definition two_docs :: json where
  "two_docs = JObj [(''search-results'',
     JObj [(''entry'', JArr [JObj [(''dc:title'', JStr ''A'')], JObj [(''dc:title'', JStr ''B'')]])])]"

definition no_results :: json where
  "no_results = JObj [(''service-error'', JNull)]"

definition null_entry :: json where
  "null_entry = JObj [(''search-results'', JObj [(''entry'', JNull)])]"

definition metrics_doc :: json where
  "metrics_doc = JObj [(''author-retrieval-response'',
     JArr [JObj [(''coredata'',
                   JObj [(''dc:identifier'', JStr ''AUTHOR_ID:123''),
                         (''document-count'', JInt 5),
                         (''cited-by-count'', JStr ''99''),
                         (''citation-count'', JStr ''10'')]),
                 (''h-index'', JStr ''3'')]])]"

text \<open>An author whose data a generic read has filled before.\<close>

definition author_read :: "unit profile" where
  "author_read = author123\<lparr>data :=
     JObj [(''author-profile'', JObj [(''preferred-name'',
              JObj [(''given-name'', JStr ''A''), (''surname'', JStr ''B'')])]),
           (''coredata'', JObj [(''prism:url'', JStr ''u''), (''citation-count'', JInt 1)])]\<rparr>"

text \<open>The author after a fetch that found two documents, and the world after that
  fetch.\<close>

definition author_docs :: "unit profile" where
  "author_docs = author123\<lparr>client := Some (Client 1),
     doc_list := JArr [JObj [(''dc:title'', JStr ''A'')], JObj [(''dc:title'', JStr ''B'')]],
     docsframe := Some ()\<rparr>"

definition world1 :: world where
  "world1 = world0\<lparr>requests := [(Client 1,
     ''http://api.elsevier.com/content/search/scopus?query=au-id(123)&view=COMPLETE'')]\<rparr>"

text \<open>A profile with a short URI and two documents.\<close>

definition short_docs :: "unit profile" where
  "short_docs = (ElsProfile_init ''u/7'')\<lparr>doc_list :=
     JArr [JObj [(''dc:title'', JStr ''A''), (''citedby-count'', JInt 12)], JStr ''x'']\<rparr>"

text \<open>A frame construction that, once the first element of a list is a dictionary,
  asks every element for its keys, as \<open>pandas\<close> does with a list of records: an element
  that is no dictionary raises \<open>AttributeError\<close>.  Every other value gives the one
  frame.\<close>

fun is_dict :: "json \<Rightarrow> bool" where
  "is_dict (JObj kvs) = True"
| "is_dict x = False"

definition keys_frame :: "json \<Rightarrow> exc + unit" where
  "keys_frame x = (case x of
       JArr (JObj kvs # ds) \<Rightarrow> if list_all is_dict ds then Inr () else Inl AttributeError
     | _ \<Rightarrow> Inr ())"

definition keys_env :: "json \<Rightarrow> unit env" where
  "keys_env doc = \<lparr>respond = (\<lambda>c n url. Inr doc), frame_of = keys_frame\<rparr>"

text \<open>A response whose entry list holds a dictionary and a number.\<close>

definition mixed_docs :: json where
  "mixed_docs = JObj [(''search-results'',
     JObj [(''entry'', JArr [JObj [(''a'', JInt 1)], JInt 5])])]"

section \<open>Construction: properties\<close>

text \<open>
  Claim C8, as stated: constructing an author or an affiliation with both a URI and an
  identifier supplied raises a construction error and produces no object.  It fails for
  a URI given together with the identifier 0: the constructor tests the identifier for
  truth, takes the number zero for no identifier, and builds the object from the URI.
\<close>

theorem construction_uri_and_id_zero:
  "(ElsAuthor_init ''u'' (IdInt 0) :: exc + unit profile) = Inr (ElsProfile_init ''u'')
   \<and> (ElsAffil_init ''u'' (IdInt 0) :: exc + unit profile) = Inr (ElsProfile_init ''u'')"
  by (simp add: ElsAuthor_init_def ElsAffil_init_def)

text \<open>
  Claim C8, amended.  Constructing an author or an affiliation with a URI and an
  identifier that are both true in a condition (a non-empty URI; an identifier that is a
  non-empty string or a number other than zero), or both false (the empty URI; the empty
  string or the number zero as identifier), raises a construction error (a \<open>ValueError\<close>)
  and produces no object.
\<close>

theorem construction_both_or_neither_raises:
  "(u \<noteq> [] \<and> id_truthy i) \<or> (u = [] \<and> \<not> id_truthy i) \<Longrightarrow>
     (\<exists>m. (ElsAuthor_init u i :: exc + 'f profile) = Inl (ValueError m))
   \<and> (\<exists>m. (ElsAffil_init u i :: exc + 'f profile) = Inl (ValueError m))"
  by (auto simp: ElsAuthor_init_def ElsAffil_init_def)

theorem construction_both_or_neither_raises_witness:
  "(\<exists>m. (ElsAuthor_init ''https://api.elsevier.com/content/author/author_id/7''
            (IdInt 7) :: exc + unit profile) = Inl (ValueError m))
   \<and> (\<exists>m. (ElsAffil_init ''https://api.elsevier.com/content/author/author_id/7''
            (IdInt 7) :: exc + unit profile) = Inl (ValueError m))
   \<and> (\<exists>m. (ElsAuthor_init [] (IdStr []) :: exc + unit profile) = Inl (ValueError m))
   \<and> (\<exists>m. (ElsAffil_init [] (IdInt 0) :: exc + unit profile) = Inl (ValueError m))"
  using construction_both_or_neither_raises
    [of "''https://api.elsevier.com/content/author/author_id/7''" "IdInt 7", where 'f = unit]
    construction_both_or_neither_raises [of "[]" "IdStr []", where 'f = unit]
    construction_both_or_neither_raises [of "[]" "IdInt 0", where 'f = unit]
  by simp

text \<open>
  Claim C7, as stated: an identifier-only construction with any numeric or string
  identifier gives the base address followed by the identifier.  It fails for the
  number zero, which the constructor takes for no identifier at all.
\<close>

theorem construction_id_zero_raises:
  "(ElsAuthor_init [] (IdInt 0) :: exc + unit profile) = Inl (ValueError ''No URI or author ID specified'')"
  by (simp add: ElsAuthor_init_def)

text \<open>
  Claim C7, amended.  A construction with a non-empty URI and no identifier (the empty
  string, or any identifier that is false in a condition) gives an object whose \<open>uri\<close> is
  the URI given; a construction with no URI and an identifier that is true in a condition
  (a non-empty string, a number other than zero) gives an object whose \<open>uri\<close> is the
  class's base address followed by \<open>str\<close> of the identifier.
\<close>

theorem construction_uri:
  "(u \<noteq> [] \<and> \<not> id_truthy i \<longrightarrow>
      (\<exists>p. (ElsAuthor_init u i :: exc + 'f profile) = Inr p \<and> uri p = u)
    \<and> (\<exists>p. (ElsAffil_init u i :: exc + 'f profile) = Inr p \<and> uri p = u))
   \<and> (id_truthy i \<longrightarrow>
      (\<exists>p. (ElsAuthor_init [] i :: exc + 'f profile) = Inr p \<and> uri p = Author_uri_base @ str_id i)
    \<and> (\<exists>p. (ElsAffil_init [] i :: exc + 'f profile) = Inr p \<and> uri p = Affil_uri_base @ str_id i))"
  by (simp add: ElsAuthor_init_def ElsAffil_init_def ElsProfile_init_def)

theorem construction_uri_witness:
  "(\<exists>p. (ElsAuthor_init ''https://api.elsevier.com/content/author/author_id/7'' (IdStr [])
           :: exc + unit profile) = Inr p
        \<and> uri p = ''https://api.elsevier.com/content/author/author_id/7'')
   \<and> (\<exists>p. (ElsAuthor_init [] (IdInt 123) :: exc + unit profile) = Inr p
        \<and> uri p = ''https://api.elsevier.com/content/author/author_id/123'')
   \<and> (\<exists>p. (ElsAffil_init [] (IdStr ''60000001'') :: exc + unit profile) = Inr p
        \<and> uri p = ''https://api.elsevier.com/content/affiliation/affiliation_id/60000001'')"
proof -
  have s: "str_int 123 = ''123''"
    by code_simp
  from construction_uri [of "''https://api.elsevier.com/content/author/author_id/7''" "IdStr []", where 'f = unit]
       construction_uri [of undefined "IdInt 123", where 'f = unit]
       construction_uri [of undefined "IdStr ''60000001''", where 'f = unit]
  show ?thesis by (simp add: s Author_uri_base_def Affil_uri_base_def)
qed

section \<open>Fetching the document list: properties\<close>

lemma available_bind:
  "available els_client p = Some c \<Longrightarrow>
     \<exists>p1. bind_client els_client p = Inr p1 \<and> client p1 = Some c \<and> uri p1 = uri p
        \<and> doc_list p1 = doc_list p \<and> data p1 = data p \<and> docsframe p1 = docsframe p"
  by (auto simp: available_def bind_client_def split: option.splits)

lemma py_get_error: "py_get x k d = Inl e \<Longrightarrow> e = AttributeError"
  by (cases x) auto

lemma py_len_error: "py_len x = Inl e \<Longrightarrow> e = TypeError"
  by (cases x) auto

text \<open>
  Claim C1, as stated: \<open>read_docs\<close> on a response whose \<open>search-results.entry\<close> is a list
  of two elements stores the list and returns \<open>True\<close>.  It fails when the frame cannot be
  built from the list: the list is stored, then the construction of the frame raises,
  and the exception, no transport error, reaches the caller.  The list here holds a
  dictionary and the number 5.
\<close>

theorem read_docs_frame_raises:
  "read_docs (keys_env mixed_docs) Author_payload_type (Some (Client 1))
      (author123\<lparr>doc_list := JArr [JInt 9]\<rparr>, world0)
     = (Inl AttributeError,
        author123\<lparr>client := Some (Client 1),
                   doc_list := JArr [JObj [(''a'', JInt 1)], JInt 5]\<rparr>,
        world1)"
  by (simp add: read_docs_def bind_client_def exec_request_def search_url_def
      last_segment_def author123_def ElsProfile_init_def world0_def world1_def keys_env_def
      keys_frame_def mixed_docs_def handler_def)

text \<open>
  Claim C1, amended.  For every profile with a client at hand (given to the call or bound
  before), \<open>read_docs\<close> on a response whose \<open>search-results.entry\<close> is a list stores that
  list as \<open>doc_list\<close> (the claim's \<open>[d1, d2]\<close> is the list \<open>ds\<close>), and on a response without
  the key \<open>search-results\<close> it stores the empty list; the document list cached before the
  call is arbitrary and is overwritten in both cases.  The call returns \<open>True\<close> in both
  cases when the frame can be built from the new list; when that construction raises,
  the list stays stored and the exception goes through the \<open>except\<close> clause.
\<close>

theorem read_docs_stores_entries:
  assumes "available els_client p = Some c"
    and "respond env c (length (requests w)) (search_url (uri p)) = Inr (JObj kvs)"
  shows "(map_of kvs ''search-results'' = Some (JObj sr) \<and> map_of sr ''entry'' = Some (JArr ds)
            \<longrightarrow> doc_list (fst (snd (read_docs env pt els_client (p, w)))) = JArr ds
              \<and> (frame_of env (JArr ds) = Inr f
                    \<longrightarrow> fst (read_docs env pt els_client (p, w)) = Inr True)
              \<and> (frame_of env (JArr ds) = Inl e
                    \<longrightarrow> fst (read_docs env pt els_client (p, w)) = handler e))
       \<and> (map_of kvs ''search-results'' = None
            \<longrightarrow> doc_list (fst (snd (read_docs env pt els_client (p, w)))) = JArr []
              \<and> (frame_of env (JArr []) = Inr f
                    \<longrightarrow> fst (read_docs env pt els_client (p, w)) = Inr True)
              \<and> (frame_of env (JArr []) = Inl e
                    \<longrightarrow> fst (read_docs env pt els_client (p, w)) = handler e))"
  using available_bind[OF assms(1)] assms(2)
  by (auto simp: read_docs_def exec_request_def Let_def split: sum.splits)

theorem read_docs_stores_entries_witness:
  "fst (read_docs (const_env two_docs) Author_payload_type (Some (Client 1))
          (author123\<lparr>doc_list := JArr [JInt 9]\<rparr>, world0)) = Inr True
   \<and> doc_list (fst (snd (read_docs (const_env two_docs) Author_payload_type (Some (Client 1))
          (author123\<lparr>doc_list := JArr [JInt 9]\<rparr>, world0))))
       = JArr [JObj [(''dc:title'', JStr ''A'')], JObj [(''dc:title'', JStr ''B'')]]
   \<and> fst (read_docs (const_env no_results) Affil_payload_type (Some (Client 1))
          (author123\<lparr>doc_list := JArr [JInt 9]\<rparr>, world0)) = Inr True
   \<and> doc_list (fst (snd (read_docs (const_env no_results) Affil_payload_type (Some (Client 1))
          (author123\<lparr>doc_list := JArr [JInt 9]\<rparr>, world0)))) = JArr []
   \<and> fst (read_docs (keys_env mixed_docs) Author_payload_type (Some (Client 1))
          (author123\<lparr>doc_list := JArr [JInt 9]\<rparr>, world0)) = handler AttributeError"
proof -
  let ?p = "author123\<lparr>doc_list := JArr [JInt 9]\<rparr>"
  have a: "available (Some (Client 1)) ?p = Some (Client 1)"
    by (simp add: available_def)
  have r1: "respond (const_env two_docs) (Client 1) (length (requests world0)) (search_url (uri ?p))
              = Inr (JObj [(''search-results'',
                   JObj [(''entry'', JArr [JObj [(''dc:title'', JStr ''A'')], JObj [(''dc:title'', JStr ''B'')]])])])"
    by (simp add: const_env_def two_docs_def)
  have r2: "respond (const_env no_results) (Client 1) (length (requests world0)) (search_url (uri ?p))
              = Inr (JObj [(''service-error'', JNull)])"
    by (simp add: const_env_def no_results_def)
  have r3: "respond (keys_env mixed_docs) (Client 1) (length (requests world0)) (search_url (uri ?p))
              = Inr (JObj [(''search-results'',
                   JObj [(''entry'', JArr [JObj [(''a'', JInt 1)], JInt 5])])])"
    by (simp add: keys_env_def mixed_docs_def)
  have f1: "frame_of (const_env d) x = Inr ()" for d x
    by (simp add: const_env_def)
  have f3: "frame_of (keys_env mixed_docs) (JArr [JObj [(''a'', JInt 1)], JInt 5])
              = Inl AttributeError"
    by (simp add: keys_env_def keys_frame_def)
  from read_docs_stores_entries [OF a r1, of "[(''entry'', JArr [JObj [(''dc:title'', JStr ''A'')], JObj [(''dc:title'', JStr ''B'')]])]"
        "[JObj [(''dc:title'', JStr ''A'')], JObj [(''dc:title'', JStr ''B'')]]" Author_payload_type "()"]
       read_docs_stores_entries [OF a r2, of undefined undefined Affil_payload_type "()"]
       read_docs_stores_entries [OF a r3, of "[(''entry'', JArr [JObj [(''a'', JInt 1)], JInt 5])]"
        "[JObj [(''a'', JInt 1)], JInt 5]" Author_payload_type undefined AttributeError]
  show ?thesis by (simp add: f1 f3)
qed

text \<open>
  Claim C4.  For every profile with a client at hand, if the client's request raises a
  transport error (\<open>HTTPError\<close> or \<open>RequestException\<close>), \<open>read_docs\<close> returns \<open>False\<close>, so the
  error does not reach the caller, and \<open>doc_list\<close> is what it was before the call.
\<close>

theorem read_docs_transport_error:
  assumes "available els_client p = Some c"
    and "respond env c (length (requests w)) (search_url (uri p)) = Inl e"
    and "transport e"
  shows "fst (read_docs env pt els_client (p, w)) = Inr False
       \<and> doc_list (fst (snd (read_docs env pt els_client (p, w)))) = doc_list p"
  using available_bind[OF assms(1)] assms(2,3)
  by (auto simp: read_docs_def exec_request_def handler_def)

theorem read_docs_transport_error_witness:
  "fst (read_docs (failing_env HTTPError) Author_payload_type None
          (author123\<lparr>client := Some (Client 1), doc_list := JArr [JInt 9]\<rparr>, world0)) = Inr False
   \<and> doc_list (fst (snd (read_docs (failing_env HTTPError) Author_payload_type None
          (author123\<lparr>client := Some (Client 1), doc_list := JArr [JInt 9]\<rparr>, world0)))) = JArr [JInt 9]"
proof -
  let ?p = "author123\<lparr>client := Some (Client 1), doc_list := JArr [JInt 9]\<rparr>"
  have a: "available None ?p = Some (Client 1)"
    by (simp add: available_def)
  have r: "respond (failing_env HTTPError) (Client 1) (length (requests world0)) (search_url (uri ?p))
              = Inl HTTPError"
    by (simp add: failing_env_def)
  from read_docs_transport_error [OF a r, of Author_payload_type]
  show ?thesis by simp
qed

text \<open>With a client at hand \<open>read_docs\<close> issues exactly one request, to the search
  address with the last path segment of the URI; the address starts with \<open>http://\<close>.\<close>

lemma read_docs_one_request:
  assumes "available els_client p = Some c"
  shows "requests (snd (snd (read_docs env pt els_client (p, w))))
           = requests w @ [(c, ''http://api.elsevier.com/content/search/scopus?query=au-id(''
                @ last_segment (uri p) @ '')&view=COMPLETE'')]"
  using available_bind[OF assms(1)]
  by (auto simp: read_docs_def exec_request_def handler_def search_url_def Let_def split: sum.splits prod.splits)

text \<open>
  Claim C5.  The claim has \<open>read_docs\<close> issue exactly one GET to
  \<open>https://api.elsevier.com/content/search/scopus?query=au-id(<id>)&view=COMPLETE\<close>.  For the
  author made from the identifier 123 the one request goes to the address below, whose
  scheme is \<open>http\<close>, not \<open>https\<close>; the base addresses of both classes and the module's
  own documentation use \<open>https\<close>.
\<close>

theorem read_docs_url_is_http:
  "requests (snd (snd (ElsAuthor_read_docs (const_env two_docs) (Some (Client 1)) (author123, world0))))
     = [(Client 1, ''http://api.elsevier.com/content/search/scopus?query=au-id(123)&view=COMPLETE'')]"
  by (simp add: ElsAuthor_read_docs_def read_docs_def bind_client_def exec_request_def
      search_url_def last_segment_def author123_def ElsProfile_init_def world0_def
      const_env_def two_docs_def)

text \<open>Without any client \<open>read_docs\<close> raises the binding error and changes nothing; with
  one it raises that error only if the client's request or the construction of the frame
  does.\<close>

lemma read_docs_unbound_raises:
  "available els_client p = None \<Longrightarrow> read_docs env pt els_client (p, w) = (Inl binding_error, p, w)"
  by (auto simp: available_def read_docs_def bind_client_def split: option.splits)

lemma read_docs_bound_no_binding_error:
  "available els_client p = Some c \<Longrightarrow> fst (read_docs env pt els_client (p, w)) \<noteq> Inl binding_error
      \<or> respond env c (length (requests w)) (search_url (uri p)) = Inl binding_error
      \<or> (\<exists>dl. frame_of env dl = Inl binding_error)"
  using available_bind[of els_client p c]
  by (auto simp: read_docs_def exec_request_def handler_def binding_error_def Let_def
      split: sum.splits prod.splits if_splits dest: py_get_error py_len_error)

text \<open>
  Claim C6.  The claim has \<open>read_docs\<close> and \<open>read_metrics\<close> alike accept a client bound
  before.  \<open>read_metrics\<close> does not: called without an argument on an author with a bound
  client it raises \<open>AttributeError\<close> (the attribute lookup on \<open>None\<close>) and issues no request,
  where \<open>read_docs\<close> uses the bound client.
\<close>

theorem read_metrics_ignores_bound_client:
  "ElsAuthor_read_metrics (const_env metrics_doc) None
      (author123\<lparr>client := Some (Client 1)\<rparr>, world0)
     = (Inl AttributeError, author123\<lparr>client := Some (Client 1)\<rparr>, world0)"
  by (simp add: ElsAuthor_read_metrics_def handler_def)

section \<open>Author metrics: properties\<close>

lemma map_of_upd: "map_of (upd k v kvs) k' = (if k' = k then Some v else map_of kvs k')"
  by (induction kvs) auto

lemma set_coredata_Inr:
  assumes "set_coredata k v d = Inr d'"
  shows "\<exists>kvs cd. d = JObj kvs \<and> map_of kvs ''coredata'' = Some (JObj cd)
           \<and> d' = JObj (upd ''coredata'' (JObj (upd k v cd)) kvs)"
proof (cases d)
  case (JObj kvs)
  show ?thesis
  proof (cases "map_of kvs ''coredata''")
    case None
    with JObj assms show ?thesis by (simp add: set_coredata_def ebind_def)
  next
    case (Some cd0)
    with JObj assms show ?thesis
      by (cases cd0) (simp_all add: set_coredata_def ebind_def)
  qed
qed (use assms in \<open>simp_all add: set_coredata_def ebind_def\<close>)

lemma set_coredata_field:
  "set_coredata k v d = Inr d' \<Longrightarrow>
     coredata_field d' k' = (if k' = k then Inr v else coredata_field d k')"
  by (drule set_coredata_Inr) (auto simp: coredata_field_def ebind_def map_of_upd)

lemma set_coredata_other:
  "set_coredata k v d = Inr d' \<Longrightarrow> k' \<noteq> ''coredata'' \<Longrightarrow> getitem d' k' = getitem d k'"
  by (drule set_coredata_Inr) (auto simp: map_of_upd)

lemma setitem_getitem:
  "setitem d k v = Inr d' \<Longrightarrow> getitem d' k' = (if k' = k then Inr v else getitem d k')"
  by (cases d) (auto simp: map_of_upd)

lemma setitem_coredata_field:
  "setitem d k v = Inr d' \<Longrightarrow> k \<noteq> ''coredata'' \<Longrightarrow> coredata_field d' k' = coredata_field d k'"
  by (cases d) (auto simp: coredata_field_def map_of_upd)

lemma metrics_stmts_success:
  assumes "run_stmts (metrics_stmts d) sd = (None, sd')"
  shows "\<exists>v nc nd nh sd1 sd2 sd3 sd4.
      coredata_field d ''dc:identifier'' = Inr v
    \<and> ebind (coredata_field d ''citation-count'') py_int = Inr nc
    \<and> ebind (coredata_field d ''document-count'') py_int = Inr nd
    \<and> ebind (getitem d ''h-index'') py_int = Inr nh
    \<and> set_coredata ''dc:identifier'' v sd = Inr sd1
    \<and> set_coredata ''citation-count'' (JInt nc) sd1 = Inr sd2
    \<and> set_coredata ''cited-by-count'' (JInt nc) sd2 = Inr sd3
    \<and> set_coredata ''document-count'' (JInt nd) sd3 = Inr sd4
    \<and> setitem sd4 ''h-index'' (JInt nh) = Inr sd'"
  using assms
  by (auto simp: metrics_stmts_def ebind_def split: sum.splits)

lemma read_metrics_success:
  assumes "ElsAuthor_read_metrics env els_client (p, w) = (Inr True, p', w')"
  shows "\<exists>c api d.
      els_client = Some c
    \<and> respond env c (length (requests w)) (uri p @ ''?field='' @ metrics_fields) = Inr api
    \<and> metrics_payload api = Inr d
    \<and> run_stmts (metrics_stmts d)
         (ensure_containers (data p)) = (None, data p')
    \<and> p' = p\<lparr>data := data p'\<rparr>"
  using assms
  by (auto simp: ElsAuthor_read_metrics_def exec_request_def handler_def Let_def
      split: option.splits sum.splits prod.splits if_splits)

lemma metrics_demo_run:
  "fst (ElsAuthor_read_metrics (const_env metrics_doc) (Some (Client 1)) (author123, world0))
     = Inr True"
  by (simp add: ElsAuthor_read_metrics_def exec_request_def const_env_def metrics_doc_def
      metrics_payload_def ebind_def Author_payload_type_def metrics_stmts_def
      coredata_field_def set_coredata_def ensure_containers_def author123_def
      ElsProfile_init_def int_of_str_def strip_def is_space_def digit_val_def Let_def)

lemma metrics_payload_demo:
  "metrics_payload metrics_doc = Inr d \<Longrightarrow>
     ebind (coredata_field d ''document-count'') py_int = Inr 5
   \<and> ebind (coredata_field d ''citation-count'') py_int = Inr 10
   \<and> ebind (getitem d ''h-index'') py_int = Inr 3"
  by (auto simp: metrics_doc_def metrics_payload_def ebind_def Author_payload_type_def
      coredata_field_def int_of_str_def strip_def is_space_def digit_val_def Let_def)

text \<open>
  Claim C3.  Whenever \<open>read_metrics\<close> on an author succeeds (returns \<open>True\<close>), the call had
  a client argument whose request returned a response; with \<open>d\<close> the first element of what
  the response holds under the author payload tag, the stored \<open>document-count\<close> and
  \<open>citation-count\<close> of \<open>data.coredata\<close> and the stored \<open>h-index\<close> of \<open>data\<close> are \<open>int\<close> of
  the fields of the same names of \<open>d\<close> (\<open>h-index\<close> at the top of \<open>d\<close>, the counts under its
  \<open>coredata\<close>), and the stored \<open>cited-by-count\<close> is \<open>int\<close> of the \<open>citation-count\<close> field of \<open>d\<close>,
  not of its \<open>cited-by-count\<close> field.
\<close>

theorem read_metrics_converts:
  assumes "ElsAuthor_read_metrics env els_client (p, w) = (Inr True, p', w')"
  shows "\<exists>c api d nd nc nh.
      els_client = Some c
    \<and> respond env c (length (requests w)) (uri p @ ''?field='' @ metrics_fields) = Inr api
    \<and> metrics_payload api = Inr d
    \<and> ebind (coredata_field d ''document-count'') py_int = Inr nd
    \<and> ebind (coredata_field d ''citation-count'') py_int = Inr nc
    \<and> ebind (getitem d ''h-index'') py_int = Inr nh
    \<and> coredata_field (data p') ''document-count'' = Inr (JInt nd)
    \<and> coredata_field (data p') ''citation-count'' = Inr (JInt nc)
    \<and> coredata_field (data p') ''cited-by-count'' = Inr (JInt nc)
    \<and> getitem (data p') ''h-index'' = Inr (JInt nh)"
proof -
  from read_metrics_success [OF assms] obtain c api d where
    c: "els_client = Some c"
    and api: "respond env c (length (requests w)) (uri p @ ''?field='' @ metrics_fields) = Inr api"
    and d: "metrics_payload api = Inr d"
    and run: "run_stmts (metrics_stmts d)
         (ensure_containers (data p)) = (None, data p')"
    by blast
  from metrics_stmts_success [OF run] obtain v nc nd nh sd1 sd2 sd3 sd4 where
    nc: "ebind (coredata_field d ''citation-count'') py_int = Inr nc"
    and nd: "ebind (coredata_field d ''document-count'') py_int = Inr nd"
    and nh: "ebind (getitem d ''h-index'') py_int = Inr nh"
    and s2: "set_coredata ''citation-count'' (JInt nc) sd1 = Inr sd2"
    and s3: "set_coredata ''cited-by-count'' (JInt nc) sd2 = Inr sd3"
    and s4: "set_coredata ''document-count'' (JInt nd) sd3 = Inr sd4"
    and s5: "setitem sd4 ''h-index'' (JInt nh) = Inr (data p')"
    by blast
  have "coredata_field (data p') ''document-count'' = Inr (JInt nd)"
    using setitem_coredata_field [OF s5] set_coredata_field [OF s4] by simp
  moreover have "coredata_field (data p') ''citation-count'' = Inr (JInt nc)"
    using setitem_coredata_field [OF s5] set_coredata_field [OF s4] set_coredata_field [OF s3]
      set_coredata_field [OF s2] by simp
  moreover have "coredata_field (data p') ''cited-by-count'' = Inr (JInt nc)"
    using setitem_coredata_field [OF s5] set_coredata_field [OF s4] set_coredata_field [OF s3]
    by simp
  moreover have "getitem (data p') ''h-index'' = Inr (JInt nh)"
    using setitem_getitem [OF s5] by simp
  ultimately show ?thesis using c api d nc nd nh by blast
qed

theorem read_metrics_converts_witness:
  "coredata_field (data (fst (snd (ElsAuthor_read_metrics (const_env metrics_doc)
       (Some (Client 1)) (author123, world0))))) ''document-count'' = Inr (JInt 5)
   \<and> coredata_field (data (fst (snd (ElsAuthor_read_metrics (const_env metrics_doc)
       (Some (Client 1)) (author123, world0))))) ''citation-count'' = Inr (JInt 10)
   \<and> coredata_field (data (fst (snd (ElsAuthor_read_metrics (const_env metrics_doc)
       (Some (Client 1)) (author123, world0))))) ''cited-by-count'' = Inr (JInt 10)
   \<and> getitem (data (fst (snd (ElsAuthor_read_metrics (const_env metrics_doc)
       (Some (Client 1)) (author123, world0))))) ''h-index'' = Inr (JInt 3)"
proof -
  let ?R = "ElsAuthor_read_metrics (const_env metrics_doc) (Some (Client 1)) (author123, world0)"
  have h: "?R = (Inr True, fst (snd ?R), snd (snd ?R))"
    using metrics_demo_run by (metis prod.collapse)
  from read_metrics_converts [OF h] obtain c api d nd nc nh where
    api: "respond (const_env metrics_doc) c (length (requests world0))
            (uri author123 @ ''?field='' @ metrics_fields) = Inr api"
    and d: "metrics_payload api = Inr d"
    and n: "ebind (coredata_field d ''document-count'') py_int = Inr nd"
      "ebind (coredata_field d ''citation-count'') py_int = Inr nc"
      "ebind (getitem d ''h-index'') py_int = Inr nh"
    and r: "coredata_field (data (fst (snd ?R))) ''document-count'' = Inr (JInt nd)"
      "coredata_field (data (fst (snd ?R))) ''citation-count'' = Inr (JInt nc)"
      "coredata_field (data (fst (snd ?R))) ''cited-by-count'' = Inr (JInt nc)"
      "getitem (data (fst (snd ?R))) ''h-index'' = Inr (JInt nh)"
    by blast
  from api have "api = metrics_doc" by (simp add: const_env_def)
  with d metrics_payload_demo [of d] n have "nd = 5 \<and> nc = 10 \<and> nh = 3" by simp
  with r show ?thesis by simp
qed

text \<open>The generic read, as the spec has it, stores the payload of the response whatever
  the data were before.\<close>

lemma read_replaces_data:
  "read env pt els_client (p, w) = (Inr True, p', w') \<Longrightarrow>
     \<exists>c api. available els_client p = Some c
       \<and> respond env c (length (requests w)) (uri p) = Inr api
       \<and> getitem api pt = Inr (data p')"
  by (auto simp: read_def bind_client_def available_def exec_request_def handler_def
      split: option.splits sum.splits prod.splits if_splits)

lemma metrics_demo_run2:
  "fst (ElsAuthor_read_metrics (const_env metrics_doc) (Some (Client 1)) (author_read, world0))
     = Inr True"
  by (simp add: ElsAuthor_read_metrics_def exec_request_def const_env_def metrics_doc_def
      metrics_payload_def ebind_def Author_payload_type_def metrics_stmts_def
      coredata_field_def set_coredata_def ensure_containers_def author123_def author_read_def
      ElsProfile_init_def int_of_str_def strip_def is_space_def digit_val_def Let_def)

text \<open>On data that is unset or empty the five assignments, when none of them raises,
  give exactly a new dictionary with the four keys under \<open>coredata\<close> and \<open>h-index\<close> beside
  it.\<close>

lemma ebind_Inr: "ebind (Inr x) f = f x"
  by (simp add: ebind_def)

lemma metrics_stmts_fresh:
  assumes "coredata_field d ''dc:identifier'' = Inr v"
    and "ebind (coredata_field d ''citation-count'') py_int = Inr nc"
    and "ebind (coredata_field d ''document-count'') py_int = Inr nd"
    and "ebind (getitem d ''h-index'') py_int = Inr nh"
  shows "run_stmts (metrics_stmts d) (JObj [(''coredata'', JObj [])])
     = (None, JObj [(''coredata'',
                      JObj [(''dc:identifier'', v), (''citation-count'', JInt nc),
                            (''cited-by-count'', JInt nc), (''document-count'', JInt nd)]),
                    (''h-index'', JInt nh)])"
  by (simp add: metrics_stmts_def assms ebind_Inr set_coredata_def)

lemma read_metrics_creates:
  assumes "\<not> truthy (data p)"
    and "respond env c (length (requests w)) (uri p @ ''?field='' @ metrics_fields) = Inr api"
    and "metrics_payload api = Inr d"
    and "coredata_field d ''dc:identifier'' = Inr v"
    and "ebind (coredata_field d ''citation-count'') py_int = Inr nc"
    and "ebind (coredata_field d ''document-count'') py_int = Inr nd"
    and "ebind (getitem d ''h-index'') py_int = Inr nh"
  shows "ElsAuthor_read_metrics env (Some c) (p, w)
     = (Inr True,
        p\<lparr>data := JObj [(''coredata'',
                      JObj [(''dc:identifier'', v), (''citation-count'', JInt nc),
                            (''cited-by-count'', JInt nc), (''document-count'', JInt nd)]),
                    (''h-index'', JInt nh)]\<rparr>,
        w\<lparr>requests := requests w @ [(c, uri p @ ''?field='' @ metrics_fields)]\<rparr>)"
  using assms(1-3)
  by (simp add: ElsAuthor_read_metrics_def exec_request_def ensure_containers_def
      metrics_stmts_fresh [OF assms(4-7)])

lemma read_metrics_created:
  assumes "ElsAuthor_read_metrics env els_client (p, w) = (Inr True, p', w')"
    and "\<not> truthy (data p)"
  shows "\<exists>v nc nd nh. data p'
     = JObj [(''coredata'',
               JObj [(''dc:identifier'', v), (''citation-count'', JInt nc),
                     (''cited-by-count'', JInt nc), (''document-count'', JInt nd)]),
             (''h-index'', JInt nh)]"
proof -
  from read_metrics_success [OF assms(1)] obtain d where
    "run_stmts (metrics_stmts d) (ensure_containers (data p)) = (None, data p')"
    by blast
  with assms(2) have
    run: "run_stmts (metrics_stmts d) (JObj [(''coredata'', JObj [])]) = (None, data p')"
    by (simp add: ensure_containers_def)
  from metrics_stmts_success [OF run] obtain v nc nd nh where
    "coredata_field d ''dc:identifier'' = Inr v"
    "ebind (coredata_field d ''citation-count'') py_int = Inr nc"
    "ebind (coredata_field d ''document-count'') py_int = Inr nd"
    "ebind (getitem d ''h-index'') py_int = Inr nh"
    by blast
  from metrics_stmts_fresh [OF this] run show ?thesis
    by simp
qed

lemma read_metrics_kept:
  assumes "ElsAuthor_read_metrics env els_client (p, w) = (Inr True, p', w')"
  shows "(\<exists>kvs cd. data p' = JObj kvs \<and> map_of kvs ''coredata'' = Some (JObj cd))
    \<and> (truthy (data p) \<longrightarrow>
         (\<forall>k. k \<noteq> ''coredata'' \<and> k \<noteq> ''h-index''
            \<longrightarrow> getitem (data p') k = getitem (data p) k)
       \<and> (\<forall>k. k \<noteq> ''dc:identifier'' \<and> k \<noteq> ''citation-count'' \<and> k \<noteq> ''cited-by-count''
              \<and> k \<noteq> ''document-count''
            \<longrightarrow> coredata_field (data p') k = coredata_field (data p) k))
    \<and> uri p' = uri p \<and> client p' = client p \<and> doc_list p' = doc_list p
    \<and> docsframe p' = docsframe p"
proof -
  from read_metrics_success [OF assms] obtain d where
    run: "run_stmts (metrics_stmts d) (ensure_containers (data p)) = (None, data p')"
    and p': "p' = p\<lparr>data := data p'\<rparr>"
    by blast
  from metrics_stmts_success [OF run] obtain v nc nd nh sd1 sd2 sd3 sd4 where
    s1: "set_coredata ''dc:identifier'' v (ensure_containers (data p)) = Inr sd1"
    and s2: "set_coredata ''citation-count'' (JInt nc) sd1 = Inr sd2"
    and s3: "set_coredata ''cited-by-count'' (JInt nc) sd2 = Inr sd3"
    and s4: "set_coredata ''document-count'' (JInt nd) sd3 = Inr sd4"
    and s5: "setitem sd4 ''h-index'' (JInt nh) = Inr (data p')"
    by blast
  have cont: "\<exists>kvs cd. data p' = JObj kvs \<and> map_of kvs ''coredata'' = Some (JObj cd)"
  proof -
    from set_coredata_Inr [OF s4] obtain kvs cd where
      "sd4 = JObj (upd ''coredata'' (JObj (upd ''document-count'' (JInt nd) cd)) kvs)"
      by blast
    with s5 have "data p' = JObj (upd ''h-index'' (JInt nh)
        (upd ''coredata'' (JObj (upd ''document-count'' (JInt nd) cd)) kvs))"
      by auto
    then show ?thesis by (simp add: map_of_upd)
  qed
  have top: "getitem (data p') k = getitem (data p) k"
    if "truthy (data p)" "k \<noteq> ''coredata'' \<and> k \<noteq> ''h-index''" for k
    using that setitem_getitem [OF s5, of k] set_coredata_other [OF s4, of k]
      set_coredata_other [OF s3, of k] set_coredata_other [OF s2, of k]
      set_coredata_other [OF s1, of k]
    by (simp add: ensure_containers_def)
  have core: "coredata_field (data p') k = coredata_field (data p) k"
    if "truthy (data p)" "k \<noteq> ''dc:identifier'' \<and> k \<noteq> ''citation-count''
          \<and> k \<noteq> ''cited-by-count'' \<and> k \<noteq> ''document-count''" for k
    using that setitem_coredata_field [OF s5, of k] set_coredata_field [OF s4, of k]
      set_coredata_field [OF s3, of k] set_coredata_field [OF s2, of k]
      set_coredata_field [OF s1, of k]
    by (simp add: ensure_containers_def)
  have rest: "uri p' = uri p \<and> client p' = client p \<and> doc_list p' = doc_list p
      \<and> docsframe p' = docsframe p"
    by (subst (1 2 3 4) p') simp
  from cont top core rest show ?thesis by blast
qed

text \<open>
  Claim C9.  The containers are created when absent: on an author whose \<open>data\<close> is unset or
  empty, a \<open>read_metrics\<close> whose request returns a response with the identifier and the
  three counters (convertible by \<open>int\<close>) in the first element of its payload returns
  \<open>True\<close> and leaves as \<open>data\<close> a new dictionary that holds under \<open>coredata\<close> a new dictionary
  with exactly the four keys written, and \<open>h-index\<close> beside it; and whenever a
  \<open>read_metrics\<close> on such an author returns \<open>True\<close>, \<open>data\<close> has that shape.  The update is
  in place: whenever \<open>read_metrics\<close> returns \<open>True\<close> on an author whose \<open>data\<close> is not
  empty, every key of \<open>data\<close> apart from \<open>coredata\<close> and \<open>h-index\<close> has the value it had before,
  and so has every key of \<open>data.coredata\<close> apart from \<open>dc:identifier\<close>, \<open>citation-count\<close>,
  \<open>cited-by-count\<close> and \<open>document-count\<close>.  In every case \<open>data\<close> ends as a dictionary with a
  dictionary under \<open>coredata\<close>, and the other attributes of the object are unchanged.
\<close>

theorem read_metrics_frame:
  "(ElsAuthor_read_metrics env els_client (p, w) = (Inr True, p', w') \<longrightarrow>
      (\<exists>kvs cd. data p' = JObj kvs \<and> map_of kvs ''coredata'' = Some (JObj cd))
    \<and> (truthy (data p) \<longrightarrow>
         (\<forall>k. k \<noteq> ''coredata'' \<and> k \<noteq> ''h-index''
            \<longrightarrow> getitem (data p') k = getitem (data p) k)
       \<and> (\<forall>k. k \<noteq> ''dc:identifier'' \<and> k \<noteq> ''citation-count'' \<and> k \<noteq> ''cited-by-count''
              \<and> k \<noteq> ''document-count''
            \<longrightarrow> coredata_field (data p') k = coredata_field (data p) k))
    \<and> (\<not> truthy (data p) \<longrightarrow>
         (\<exists>v nc nd nh. data p'
            = JObj [(''coredata'',
                      JObj [(''dc:identifier'', v), (''citation-count'', JInt nc),
                            (''cited-by-count'', JInt nc), (''document-count'', JInt nd)]),
                    (''h-index'', JInt nh)]))
    \<and> uri p' = uri p \<and> client p' = client p \<and> doc_list p' = doc_list p
    \<and> docsframe p' = docsframe p)
   \<and> (\<not> truthy (data q)
      \<and> respond env c (length (requests u)) (uri q @ ''?field='' @ metrics_fields) = Inr api
      \<and> metrics_payload api = Inr d
      \<and> coredata_field d ''dc:identifier'' = Inr i
      \<and> ebind (coredata_field d ''citation-count'') py_int = Inr nc
      \<and> ebind (coredata_field d ''document-count'') py_int = Inr nd
      \<and> ebind (getitem d ''h-index'') py_int = Inr nh
      \<longrightarrow> ElsAuthor_read_metrics env (Some c) (q, u)
          = (Inr True,
             q\<lparr>data := JObj [(''coredata'',
                      JObj [(''dc:identifier'', i), (''citation-count'', JInt nc),
                            (''cited-by-count'', JInt nc), (''document-count'', JInt nd)]),
                    (''h-index'', JInt nh)]\<rparr>,
             u\<lparr>requests := requests u @ [(c, uri q @ ''?field='' @ metrics_fields)]\<rparr>))"
proof (intro conjI impI)
  assume "\<not> truthy (data q)
      \<and> respond env c (length (requests u)) (uri q @ ''?field='' @ metrics_fields) = Inr api
      \<and> metrics_payload api = Inr d
      \<and> coredata_field d ''dc:identifier'' = Inr i
      \<and> ebind (coredata_field d ''citation-count'') py_int = Inr nc
      \<and> ebind (coredata_field d ''document-count'') py_int = Inr nd
      \<and> ebind (getitem d ''h-index'') py_int = Inr nh"
  then show "ElsAuthor_read_metrics env (Some c) (q, u)
          = (Inr True,
             q\<lparr>data := JObj [(''coredata'',
                      JObj [(''dc:identifier'', i), (''citation-count'', JInt nc),
                            (''cited-by-count'', JInt nc), (''document-count'', JInt nd)]),
                    (''h-index'', JInt nh)]\<rparr>,
             u\<lparr>requests := requests u @ [(c, uri q @ ''?field='' @ metrics_fields)]\<rparr>)"
    using read_metrics_creates [of q env c u api d i nc nd nh] by blast
next
  assume h: "ElsAuthor_read_metrics env els_client (p, w) = (Inr True, p', w')"
  note k = read_metrics_kept [OF h]
  from k show "\<exists>kvs cd. data p' = JObj kvs \<and> map_of kvs ''coredata'' = Some (JObj cd)"
    by blast
  from k show "uri p' = uri p" "client p' = client p" "doc_list p' = doc_list p"
    "docsframe p' = docsframe p"
    by blast+
  {
    assume t: "truthy (data p)"
    from k t show "\<forall>k. k \<noteq> ''coredata'' \<and> k \<noteq> ''h-index''
            \<longrightarrow> getitem (data p') k = getitem (data p) k"
      by blast
    from k t show "\<forall>k. k \<noteq> ''dc:identifier'' \<and> k \<noteq> ''citation-count'' \<and> k \<noteq> ''cited-by-count''
              \<and> k \<noteq> ''document-count''
            \<longrightarrow> coredata_field (data p') k = coredata_field (data p) k"
      by blast
  }
  {
    assume "\<not> truthy (data p)"
    from read_metrics_created [OF h this]
    show "\<exists>v nc nd nh. data p'
            = JObj [(''coredata'',
                      JObj [(''dc:identifier'', v), (''citation-count'', JInt nc),
                            (''cited-by-count'', JInt nc), (''document-count'', JInt nd)]),
                    (''h-index'', JInt nh)]" .
  }
qed

lemma metrics_payload_doc:
  "metrics_payload metrics_doc
     = Inr (JObj [(''coredata'',
                   JObj [(''dc:identifier'', JStr ''AUTHOR_ID:123''),
                         (''document-count'', JInt 5),
                         (''cited-by-count'', JStr ''99''),
                         (''citation-count'', JStr ''10'')]),
                 (''h-index'', JStr ''3'')])"
  by (simp add: metrics_doc_def metrics_payload_def ebind_def Author_payload_type_def)

theorem read_metrics_frame_witness:
  "ElsAuthor_read_metrics (const_env metrics_doc) (Some (Client 1)) (author123, world0)
     = (Inr True,
        author123\<lparr>data := JObj [(''coredata'',
                      JObj [(''dc:identifier'', JStr ''AUTHOR_ID:123''),
                            (''citation-count'', JInt 10), (''cited-by-count'', JInt 10),
                            (''document-count'', JInt 5)]),
                    (''h-index'', JInt 3)]\<rparr>,
        world0\<lparr>requests := requests world0
           @ [(Client 1, uri author123 @ ''?field='' @ metrics_fields)]\<rparr>)
   \<and> getitem (data (fst (snd (ElsAuthor_read_metrics (const_env metrics_doc)
       (Some (Client 1)) (author_read, world0))))) ''author-profile''
     = Inr (JObj [(''preferred-name'',
              JObj [(''given-name'', JStr ''A''), (''surname'', JStr ''B'')])])
   \<and> coredata_field (data (fst (snd (ElsAuthor_read_metrics (const_env metrics_doc)
       (Some (Client 1)) (author_read, world0))))) ''prism:url'' = Inr (JStr ''u'')
   \<and> doc_list (fst (snd (ElsAuthor_read_metrics (const_env metrics_doc)
       (Some (Client 1)) (author_read, world0)))) = JNull"
proof -
  let ?d = "JObj [(''coredata'',
                   JObj [(''dc:identifier'', JStr ''AUTHOR_ID:123''),
                         (''document-count'', JInt 5),
                         (''cited-by-count'', JStr ''99''),
                         (''citation-count'', JStr ''10'')]),
                 (''h-index'', JStr ''3'')]"
  let ?R = "ElsAuthor_read_metrics (const_env metrics_doc) (Some (Client 1)) (author_read, world0)"
  have n: "\<not> truthy (data author123)"
    by (simp add: author123_def ElsProfile_init_def)
  have r: "respond (const_env metrics_doc) (Client 1) (length (requests world0))
      (uri author123 @ ''?field='' @ metrics_fields) = Inr metrics_doc"
    by (simp add: const_env_def)
  have i: "coredata_field ?d ''dc:identifier'' = Inr (JStr ''AUTHOR_ID:123'')"
    by (simp add: coredata_field_def ebind_def)
  have c: "ebind (coredata_field ?d ''citation-count'') py_int = Inr 10"
    "ebind (coredata_field ?d ''document-count'') py_int = Inr 5"
    "ebind (getitem ?d ''h-index'') py_int = Inr 3"
    by (simp_all add: coredata_field_def ebind_def int_of_str_def strip_def is_space_def
        digit_val_def Let_def)
  from n r metrics_payload_doc i c
  have "\<not> truthy (data author123)
      \<and> respond (const_env metrics_doc) (Client 1) (length (requests world0))
          (uri author123 @ ''?field='' @ metrics_fields) = Inr metrics_doc
      \<and> metrics_payload metrics_doc = Inr ?d
      \<and> coredata_field ?d ''dc:identifier'' = Inr (JStr ''AUTHOR_ID:123'')
      \<and> ebind (coredata_field ?d ''citation-count'') py_int = Inr 10
      \<and> ebind (coredata_field ?d ''document-count'') py_int = Inr 5
      \<and> ebind (getitem ?d ''h-index'') py_int = Inr 3"
    by blast
  from read_metrics_frame [THEN conjunct2, rule_format, OF this]
  have made: "ElsAuthor_read_metrics (const_env metrics_doc) (Some (Client 1)) (author123, world0)
     = (Inr True,
        author123\<lparr>data := JObj [(''coredata'',
                      JObj [(''dc:identifier'', JStr ''AUTHOR_ID:123''),
                            (''citation-count'', JInt 10), (''cited-by-count'', JInt 10),
                            (''document-count'', JInt 5)]),
                    (''h-index'', JInt 3)]\<rparr>,
        world0\<lparr>requests := requests world0
           @ [(Client 1, uri author123 @ ''?field='' @ metrics_fields)]\<rparr>)" .
  have h: "?R = (Inr True, fst (snd ?R), snd (snd ?R))"
    using metrics_demo_run2 by (metis prod.collapse)
  have t: "truthy (data author_read)"
    by (simp add: author_read_def)
  from read_metrics_frame [THEN conjunct1, rule_format, OF h] t have
    "getitem (data (fst (snd ?R))) ''author-profile''
       = getitem (data author_read) ''author-profile''"
    "coredata_field (data (fst (snd ?R))) ''prism:url''
       = coredata_field (data author_read) ''prism:url''"
    "doc_list (fst (snd ?R)) = doc_list author_read"
    by simp_all
  moreover have "getitem (data author_read) ''author-profile''
      = Inr (JObj [(''preferred-name'',
              JObj [(''given-name'', JStr ''A''), (''surname'', JStr ''B'')])])"
    "coredata_field (data author_read) ''prism:url'' = Inr (JStr ''u'')"
    "doc_list author_read = JNull"
    by (simp_all add: author_read_def author123_def ElsProfile_init_def coredata_field_def
        ebind_def)
  ultimately show ?thesis using made by simp
qed

section \<open>Writing the document list: properties\<close>

subsection \<open>Integers: what \<open>str\<close> writes, the parser reads\<close>















subsection \<open>Strings: escapes and their reading\<close>



lemma char_of_of_char_nat: "char_of (16 * ((of_char c :: nat) div 16) + of_char c mod 16) = c"
  by simp




subsection \<open>White space and the first character of a text\<close>












subsection \<open>Lists and dictionaries\<close>









subsection \<open>The parser reads back what \<open>json.dumps\<close> writes\<close>







subsection \<open>The text of a document list\<close>










subsection \<open>The path of the file\<close>








subsection \<open>The writes of \<open>write_docs\<close>\<close>










section \<open>The life of the document list\<close>

lemma read_docs_doc_list:
  assumes "read_docs env pt c (p, w) = (r, p', w')"
  shows "doc_list p' = doc_list p
    \<or> (\<exists>c' api sr. available c p = Some c'
          \<and> respond env c' (length (requests w)) (search_url (uri p)) = Inr api
          \<and> py_get api ''search-results'' (JObj []) = Inr sr
          \<and> py_get sr ''entry'' (JArr []) = Inr (doc_list p'))"
  using assms
  by (auto simp: read_docs_def bind_client_def available_def exec_request_def handler_def
      Let_def split: option.splits sum.splits prod.splits if_splits)

lemma read_doc_list:
  "read env pt c (p, w) = (r, p', w') \<Longrightarrow> doc_list p' = doc_list p"
  by (auto simp: read_def bind_client_def exec_request_def handler_def
      split: option.splits sum.splits prod.splits if_splits)

lemma read_metrics_doc_list:
  "ElsAuthor_read_metrics env c (p, w) = (r, p', w') \<Longrightarrow> doc_list p' = doc_list p"
  by (auto simp: ElsAuthor_read_metrics_def exec_request_def handler_def Let_def
      split: option.splits sum.splits prod.splits if_splits)

lemma write_docs_profile:
  "write_docs (p, w) = (r, p', w') \<Longrightarrow> p' = p"
  by (auto simp: write_docs_def Let_def split: option.splits sum.splits prod.splits if_splits)

lemma write_docs_True_nonempty:
  assumes "write_docs (p, w) = (Inr True, p', w')"
  shows "nonempty (doc_list p)"
proof (cases "doc_list p")
  case (JArr xs)
  with assms show ?thesis
    by (cases xs) (auto simp: write_docs_def nonempty_def split: if_splits)
next
  case (JStr s)
  with assms show ?thesis
    by (cases s) (auto simp: write_docs_def nonempty_def split: if_splits)
qed (use assms in \<open>auto simp: write_docs_def Let_def split: if_splits sum.splits prod.splits\<close>)

lemma write_docs_True_truthy:
  "write_docs (p, w) = (Inr True, p', w') \<Longrightarrow> truthy (doc_list p)"
  by (auto simp: write_docs_def split: if_splits)

lemma call_doc_list:
  assumes "call env cls x (p, w) = (r, p', w')"
  shows "doc_list p' = doc_list p
    \<or> (\<exists>c c' api sr. x = ReadDocs c \<and> available c p = Some c'
          \<and> respond env c' (length (requests w)) (search_url (uri p)) = Inr api
          \<and> py_get api ''search-results'' (JObj []) = Inr sr
          \<and> py_get sr ''entry'' (JArr []) = Inr (doc_list p'))"
proof (cases x)
  case (Read c)
  with assms show ?thesis
    by (cases cls)
      (auto simp: ElsAuthor_read_def ElsAffil_read_def split: prod.splits sum.splits if_splits
        dest: read_doc_list)
next
  case (ReadDocs c)
  with assms show ?thesis
    by (cases cls)
      (auto simp: ElsAuthor_read_docs_def ElsAffil_read_docs_def dest: read_docs_doc_list)
next
  case (ReadMetrics c)
  with assms show ?thesis
    by (cases cls) (auto dest: read_metrics_doc_list)
next
  case WriteDocs
  with assms show ?thesis
    by (auto dest: write_docs_profile)
qed

lemma state_before_0: "state_before env cls xs 0 pw = pw"
  by (simp add: state_before_def)

lemma state_before_Suc:
  "call env cls x pw = (r, pw') \<Longrightarrow>
     state_before env cls (x # xs) (Suc j) pw = state_before env cls xs j pw'"
  by (simp add: state_before_def split: prod.splits)

text \<open>Over a sequence of calls, a \<open>doc_list\<close> that differs at the end from what it was at
  the start is the entry value of the response to one \<open>read_docs\<close> of the sequence.\<close>

lemma calls_changed:
  assumes "calls env cls xs (p, w) = (rs, p', w')" and "doc_list p' \<noteq> doc_list p"
  shows "\<exists>j c c' api sr. j < length xs \<and> xs ! j = ReadDocs c
      \<and> available c (fst (state_before env cls xs j (p, w))) = Some c'
      \<and> respond env c' (length (requests (snd (state_before env cls xs j (p, w)))))
           (search_url (uri (fst (state_before env cls xs j (p, w))))) = Inr api
      \<and> py_get api ''search-results'' (JObj []) = Inr sr
      \<and> py_get sr ''entry'' (JArr []) = Inr (doc_list p')"
  using assms
proof (induction xs arbitrary: p w rs)
  case Nil
  then show ?case by simp
next
  case (Cons x xs)
  obtain r p1 w1 where step: "call env cls x (p, w) = (r, p1, w1)"
    by (metis prod_cases3)
  obtain rs' where rest: "calls env cls xs (p1, w1) = (rs', p', w')"
    using Cons.prems(1) step by (auto split: prod.splits)
  show ?case
  proof (cases "doc_list p' = doc_list p1")
    case True
    with Cons.prems(2) have "doc_list p1 \<noteq> doc_list p" by simp
    with call_doc_list [OF step] obtain c c' api sr where
      "x = ReadDocs c" "available c p = Some c'"
      "respond env c' (length (requests w)) (search_url (uri p)) = Inr api"
      "py_get api ''search-results'' (JObj []) = Inr sr"
      "py_get sr ''entry'' (JArr []) = Inr (doc_list p1)"
      by blast
    with True have "0 < length (x # xs) \<and> (x # xs) ! 0 = ReadDocs c
      \<and> available c (fst (state_before env cls (x # xs) 0 (p, w))) = Some c'
      \<and> respond env c' (length (requests (snd (state_before env cls (x # xs) 0 (p, w)))))
           (search_url (uri (fst (state_before env cls (x # xs) 0 (p, w))))) = Inr api
      \<and> py_get api ''search-results'' (JObj []) = Inr sr
      \<and> py_get sr ''entry'' (JArr []) = Inr (doc_list p')"
      by (simp add: state_before_0)
    then show ?thesis by blast
  next
    case False
    from Cons.IH [OF rest False] obtain j c c' api sr where
      "j < length xs" "xs ! j = ReadDocs c"
      "available c (fst (state_before env cls xs j (p1, w1))) = Some c'"
      "respond env c' (length (requests (snd (state_before env cls xs j (p1, w1)))))
           (search_url (uri (fst (state_before env cls xs j (p1, w1))))) = Inr api"
      "py_get api ''search-results'' (JObj []) = Inr sr"
      "py_get sr ''entry'' (JArr []) = Inr (doc_list p')"
      by blast
    then have "Suc j < length (x # xs) \<and> (x # xs) ! Suc j = ReadDocs c
      \<and> available c (fst (state_before env cls (x # xs) (Suc j) (p, w))) = Some c'
      \<and> respond env c' (length (requests (snd (state_before env cls (x # xs) (Suc j) (p, w)))))
           (search_url (uri (fst (state_before env cls (x # xs) (Suc j) (p, w))))) = Inr api
      \<and> py_get api ''search-results'' (JObj []) = Inr sr
      \<and> py_get sr ''entry'' (JArr []) = Inr (doc_list p')"
      by (simp add: state_before_Suc [OF step])
    then show ?thesis by blast
  qed
qed

text \<open>
  Claim C10, as stated: no operation other than a successful \<open>read_docs\<close> ever changes
  \<open>doc_list\<close>.  It fails for a \<open>read_docs\<close> whose response has \<open>null\<close> under
  \<open>search-results.entry\<close>: the value is stored, then \<open>len\<close> raises \<open>TypeError\<close>, which no
  clause catches.  After a first fetch that found two documents, such a second fetch
  raises and leaves \<open>doc_list\<close> unset.
\<close>

theorem failed_read_docs_changes_doc_list:
  "calls (two_env two_docs null_entry) ElsAuthor [ReadDocs (Some (Client 1))] (author123, world0)
     = ([Inr True], author_docs, world1)
   \<and> doc_list author_docs
     = JArr [JObj [(''dc:title'', JStr ''A'')], JObj [(''dc:title'', JStr ''B'')]]
   \<and> fst (call (two_env two_docs null_entry) ElsAuthor (ReadDocs None) (author_docs, world1))
     = Inl TypeError
   \<and> doc_list (fst (snd (call (two_env two_docs null_entry) ElsAuthor (ReadDocs None)
        (author_docs, world1)))) = JNull"
  by (simp add: ElsAuthor_read_docs_def read_docs_def bind_client_def exec_request_def
      search_url_def last_segment_def author123_def ElsProfile_init_def world0_def
      two_env_def two_docs_def null_entry_def handler_def author_docs_def world1_def)

text \<open>
  Claim C10, amended.  Construction leaves \<open>doc_list\<close> unset.  No call other than a
  \<open>read_docs\<close> whose request returned a response changes \<open>doc_list\<close>: not the generic
  read, not \<open>read_metrics\<close>, not \<open>write_docs\<close>, not a \<open>read_docs\<close> without a client or one
  whose request raised; and the \<open>read_docs\<close> that changes it stores what the response has
  under \<open>search-results.entry\<close> (the empty list when a key is missing), whether the call
  then returns \<open>True\<close> or raises.  \<open>write_docs\<close> returns \<open>True\<close> only when \<open>doc_list\<close> is true in
  a condition and has a positive length.  And in every sequence of calls, whatever the
  calls return or raise, a \<open>doc_list\<close> that is not at the end what it was at the start (so
  every non-empty \<open>doc_list\<close> of an object that was constructed with it unset) is the
  entry value of the response that one \<open>read_docs\<close> of the sequence received.
\<close>

theorem doc_list_lifecycle:
  "(((ElsAuthor_init u i :: exc + 'f profile) = Inr p0 \<or> ElsAffil_init u i = Inr p0)
      \<longrightarrow> doc_list p0 = JNull)
   \<and> (call env cls x (p, w) = (r, p', w') \<and> doc_list p' \<noteq> doc_list p
      \<longrightarrow> (\<exists>c c' api sr. x = ReadDocs c \<and> available c p = Some c'
            \<and> respond env c' (length (requests w)) (search_url (uri p)) = Inr api
            \<and> py_get api ''search-results'' (JObj []) = Inr sr
            \<and> py_get sr ''entry'' (JArr []) = Inr (doc_list p')))
   \<and> (call env cls WriteDocs (q, v) = (Inr True, q', v')
      \<longrightarrow> truthy (doc_list q) \<and> nonempty (doc_list q))
   \<and> (calls env cls xs (s0, v0) = (rs, s, v1) \<and> doc_list s \<noteq> doc_list s0
      \<longrightarrow> (\<exists>j c c' api sr. j < length xs \<and> xs ! j = ReadDocs c
            \<and> available c (fst (state_before env cls xs j (s0, v0))) = Some c'
            \<and> respond env c' (length (requests (snd (state_before env cls xs j (s0, v0)))))
                 (search_url (uri (fst (state_before env cls xs j (s0, v0))))) = Inr api
            \<and> py_get api ''search-results'' (JObj []) = Inr sr
            \<and> py_get sr ''entry'' (JArr []) = Inr (doc_list s)))"
proof -
  have a: "((ElsAuthor_init u i :: exc + 'f profile) = Inr p0 \<or> ElsAffil_init u i = Inr p0)
      \<longrightarrow> doc_list p0 = JNull"
    by (auto simp: ElsAuthor_init_def ElsAffil_init_def ElsProfile_init_def split: if_splits)
  have b: "call env cls x (p, w) = (r, p', w') \<and> doc_list p' \<noteq> doc_list p
      \<longrightarrow> (\<exists>c c' api sr. x = ReadDocs c \<and> available c p = Some c'
            \<and> respond env c' (length (requests w)) (search_url (uri p)) = Inr api
            \<and> py_get api ''search-results'' (JObj []) = Inr sr
            \<and> py_get sr ''entry'' (JArr []) = Inr (doc_list p'))"
    using call_doc_list [of env cls x p w r p' w'] by blast
  have c: "call env cls WriteDocs (q, v) = (Inr True, q', v')
      \<longrightarrow> truthy (doc_list q) \<and> nonempty (doc_list q)"
    using write_docs_True_nonempty [of q v q' v'] write_docs_True_truthy [of q v q' v']
    by simp
  have d: "calls env cls xs (s0, v0) = (rs, s, v1) \<and> doc_list s \<noteq> doc_list s0
      \<longrightarrow> (\<exists>j c c' api sr. j < length xs \<and> xs ! j = ReadDocs c
            \<and> available c (fst (state_before env cls xs j (s0, v0))) = Some c'
            \<and> respond env c' (length (requests (snd (state_before env cls xs j (s0, v0)))))
                 (search_url (uri (fst (state_before env cls xs j (s0, v0))))) = Inr api
            \<and> py_get api ''search-results'' (JObj []) = Inr sr
            \<and> py_get sr ''entry'' (JArr []) = Inr (doc_list s))"
    using calls_changed [of env cls xs s0 v0 rs s v1] by blast
  from a b c d show ?thesis by blast
qed

lemma short_docs_written: "fst (write_docs (short_docs, world0)) = Inr True"
  by code_simp

lemma author123_init: "(ElsAuthor_init [] (IdInt 123) :: exc + unit profile) = Inr author123"
proof -
  have "str_int 123 = ''123''" by code_simp
  then show ?thesis
    by (simp add: ElsAuthor_init_def author123_def Author_uri_base_def)
qed

theorem doc_list_lifecycle_witness:
  "doc_list author123 = JNull
   \<and> (\<exists>c c' api sr. ReadDocs None = ReadDocs c \<and> available c author_docs = Some c'
        \<and> respond (two_env two_docs null_entry) c' (length (requests world1))
            (search_url (uri author_docs)) = Inr api
        \<and> py_get api ''search-results'' (JObj []) = Inr sr
        \<and> py_get sr ''entry'' (JArr []) = Inr JNull)
   \<and> truthy (doc_list short_docs) \<and> nonempty (doc_list short_docs)
   \<and> (\<exists>j c c' api sr. j < length [ReadDocs (Some (Client 1))]
        \<and> [ReadDocs (Some (Client 1))] ! j = ReadDocs c
        \<and> available c (fst (state_before (two_env two_docs null_entry) ElsAuthor
             [ReadDocs (Some (Client 1))] j (author123, world0))) = Some c'
        \<and> respond (two_env two_docs null_entry) c'
             (length (requests (snd (state_before (two_env two_docs null_entry) ElsAuthor
                [ReadDocs (Some (Client 1))] j (author123, world0)))))
             (search_url (uri (fst (state_before (two_env two_docs null_entry) ElsAuthor
                [ReadDocs (Some (Client 1))] j (author123, world0))))) = Inr api
        \<and> py_get api ''search-results'' (JObj []) = Inr sr
        \<and> py_get sr ''entry'' (JArr []) = Inr (JArr [JObj [(''dc:title'', JStr ''A'')],
             JObj [(''dc:title'', JStr ''B'')]]))"
proof -
  let ?E = "two_env two_docs null_entry"
  let ?R = "call ?E ElsAuthor (ReadDocs None) (author_docs, world1)"
  let ?W = "call ?E ElsAuthor WriteDocs (short_docs, world0)"
  note cx = failed_read_docs_changes_doc_list
  have a: "doc_list author123 = JNull"
    using doc_list_lifecycle [THEN conjunct1, of "[]" "IdInt 123" author123] author123_init
    by simp
  have r2: "doc_list (fst (snd ?R)) = JNull"
    and d0: "doc_list author_docs
      = JArr [JObj [(''dc:title'', JStr ''A'')], JObj [(''dc:title'', JStr ''B'')]]"
    using cx by blast+
  have e1: "?R = (fst ?R, fst (snd ?R), snd (snd ?R))"
    by (simp only: prod.collapse)
  have e2: "doc_list (fst (snd ?R)) \<noteq> doc_list author_docs"
    unfolding r2 d0 by simp
  from e1 e2
  have "?R = (fst ?R, fst (snd ?R), snd (snd ?R)) \<and> doc_list (fst (snd ?R)) \<noteq> doc_list author_docs"
    by (rule conjI)
  from doc_list_lifecycle [THEN conjunct2, THEN conjunct1, rule_format, OF this]
  have b: "\<exists>c c' api sr. ReadDocs None = ReadDocs c \<and> available c author_docs = Some c'
        \<and> respond ?E c' (length (requests world1)) (search_url (uri author_docs)) = Inr api
        \<and> py_get api ''search-results'' (JObj []) = Inr sr
        \<and> py_get sr ''entry'' (JArr []) = Inr JNull"
    unfolding r2 .
  have "fst ?W = Inr True"
    using short_docs_written by simp
  then have "?W = (Inr True, fst (snd ?W), snd (snd ?W))"
    by (metis prod.collapse)
  from doc_list_lifecycle [THEN conjunct2, THEN conjunct2, THEN conjunct1, rule_format, OF this]
  have c: "truthy (doc_list short_docs) \<and> nonempty (doc_list short_docs)" .
  have "doc_list author_docs \<noteq> doc_list author123"
    unfolding d0 a by simp
  with cx
  have "calls ?E ElsAuthor [ReadDocs (Some (Client 1))] (author123, world0)
          = ([Inr True], author_docs, world1)
      \<and> doc_list author_docs \<noteq> doc_list author123"
    by blast
  from doc_list_lifecycle [THEN conjunct2, THEN conjunct2, THEN conjunct2, rule_format, OF this]
  have d: "\<exists>j c c' api sr. j < length [ReadDocs (Some (Client 1))]
        \<and> [ReadDocs (Some (Client 1))] ! j = ReadDocs c
        \<and> available c (fst (state_before ?E ElsAuthor
             [ReadDocs (Some (Client 1))] j (author123, world0))) = Some c'
        \<and> respond ?E c'
             (length (requests (snd (state_before ?E ElsAuthor
                [ReadDocs (Some (Client 1))] j (author123, world0)))))
             (search_url (uri (fst (state_before ?E ElsAuthor
                [ReadDocs (Some (Client 1))] j (author123, world0))))) = Inr api
        \<and> py_get api ''search-results'' (JObj []) = Inr sr
        \<and> py_get sr ''entry'' (JArr []) = Inr (JArr [JObj [(''dc:title'', JStr ''A'')],
             JObj [(''dc:title'', JStr ''B'')]])"
    unfolding d0 .
  from a b c d show ?thesis by blast
qed

end
